theory Spec2Isabelle
  imports Complex_Main
begin

section \<open>Conventions of the embedding\<close>

text \<open>
  The solvers of \<^verbatim>\<open>simulations/wave_1d.py\<close> and \<^verbatim>\<open>simulations/wave_2d.py\<close> and the
  analyzer of \<^verbatim>\<open>analysis/dispersion.py\<close> are embedded as HOL functions.

  \<^item> A numpy array of floats is a \<open>real list\<close> (1D) or a list of rows (2D, axis 0 first).
    Arithmetic is real arithmetic: rounding, overflow to \<open>inf\<close> and \<open>nan\<close> are not
    modelled, so every statement below is about the formulas the code evaluates, read over
    the reals. Nor is the \<open>OverflowError\<close> modelled that Python's float power raises
    when a square (\<open>self.dx**2\<close>, \<open>self.dt**2\<close>, \<open>self.c**2\<close>, \<open>self.omega0**2\<close>) leaves the
    range of a double, as for \<open>L = 4e200\<close>: where a lemma below says that a run returns,
    it says so of the run over the reals, and the statements about errors are made only
    where the code and the reals agree.
  \<^item> An instance of a simulation class is a record; a method that mutates \<open>self\<close> takes
    the record and returns the updated one.
  \<^item> A Python exception is a value \<open>Inl e\<close> of the result type \<open>error + 'a\<close>.
  \<^item> Python's \<open>int\<close> arguments (\<open>Nx\<close>, \<open>Nt\<close>, \<open>save_every\<close>) are of type \<open>int\<close>.
\<close>

datatype error = ZeroDivisionError | ValueError | IndexError

section \<open>wave\_1d.py: class VGTSimulation1D\<close>

record sim1d =
  L_1d :: real
  Nx_1d :: int
  c_1d :: real
  omega0_1d :: real
  dx_1d :: real
  dt_1d :: real
  pulse_width_1d :: real
  x_1d :: "real list"
  phi_history_1d :: "real list list"
  time_points_1d :: "real list"
  max_amplitude_1d :: "real list"

text \<open>
  \<^verbatim>\<open>np.linspace(start, stop, num)\<close> with the default \<open>endpoint=True\<close>: \<open>num\<close> samples,
  the step being \<open>(stop - start) / (num - 1)\<close>; a single sample is \<open>start\<close>, and no
  sample at all is the empty array. (A negative \<open>num\<close> raises \<open>ValueError\<close>; the
  constructors below check that before they call this function.)
\<close>

definition linspace :: "real \<Rightarrow> real \<Rightarrow> nat \<Rightarrow> real list" where
  "linspace start stop num =
     (if num = 1 then [start]
      else map (\<lambda>i. start + real i * ((stop - start) / real (num - 1))) [0..<num])"

text \<open>
  \<^verbatim>\<open>__init__\<close> (lines 16-50). \<open>L / Nx\<close> raises \<open>ZeroDivisionError\<close> for \<open>Nx = 0\<close>,
  \<open>dt_factor * self.dx / c\<close> raises it for \<open>c = 0\<close>, and \<open>np.linspace\<close> raises
  \<open>ValueError\<close> for a negative number of samples. Nothing else is checked.
\<close>

definition init_1d :: "real \<Rightarrow> int \<Rightarrow> real \<Rightarrow> real \<Rightarrow> real \<Rightarrow> real \<Rightarrow> error + sim1d" where
  "init_1d L Nx c omega0 dt_factor pulse_width =
     (if Nx = 0 then Inl ZeroDivisionError
      else if c = 0 then Inl ZeroDivisionError
      else if Nx < 0 then Inl ValueError
      else Inr \<lparr> L_1d = L, Nx_1d = Nx, c_1d = c, omega0_1d = omega0,
                 dx_1d = L / of_int Nx,
                 dt_1d = dt_factor * (L / of_int Nx) / c,
                 pulse_width_1d = pulse_width,
                 x_1d = linspace 0 L (nat Nx),
                 phi_history_1d = [], time_points_1d = [], max_amplitude_1d = [] \<rparr>)"

text \<open>\<^verbatim>\<open>gaussian_pulse\<close> (lines 52-56) with its defaults \<open>center = L / 2\<close>, \<open>amplitude = 1.0\<close>.\<close>

definition gaussian_pulse :: "sim1d \<Rightarrow> real list" where
  "gaussian_pulse s =
     (let center = L_1d s / 2
      in map (\<lambda>xi. 1 * exp (- ((xi - center)\<^sup>2) / pulse_width_1d s)) (x_1d s))"

text \<open>
  The wavenumbers of \<^verbatim>\<open>verify_dispersion\<close> (line 111),
  \<^verbatim>\<open>fftfreq(self.Nx, self.dx) * 2 * np.pi\<close>. \<open>fftfreq(n, d)\<close> is the array
  \<open>[0, 1, ..., (n-1)//2, -(n//2), ..., -1]\<close> times \<open>1.0 / (n * d)\<close>, a division that raises
  \<open>ZeroDivisionError\<close> when \<open>n * d\<close> is zero.
\<close>

definition fftfreq :: "nat \<Rightarrow> real \<Rightarrow> error + real list" where
  "fftfreq n d =
     (if real n * d = 0 then Inl ZeroDivisionError
      else Inr (map (\<lambda>i. (if i < (n - 1) div 2 + 1 then real i else real i - real n) * (1 / (real n * d)))
                    [0..<n]))"

definition wavenumbers_1d :: "sim1d \<Rightarrow> error + real list" where
  "wavenumbers_1d s =
     (case fftfreq (nat (Nx_1d s)) (dx_1d s) of
        Inl e \<Rightarrow> Inl e
      | Inr f \<Rightarrow> Inr (map (\<lambda>v. v * 2 * pi) f))"

text \<open>
  The body of the time loop, lines 80-91: the right-hand side of the assignment to
  \<open>phi_next[i]\<close>, the loop over the interior indices \<open>range(1, Nx - 1)\<close> that writes
  into a zero array, and the two boundary assignments. \<open>phi_next[-1]\<close> is the last cell.
\<close>

definition stencil_1d :: "sim1d \<Rightarrow> real list \<Rightarrow> real list \<Rightarrow> nat \<Rightarrow> real" where
  "stencil_1d s phi phi_prev i =
     (let d2phi_dx2 = (phi ! (i + 1) - 2 * phi ! i + phi ! (i - 1)) / (dx_1d s)\<^sup>2
      in 2 * phi ! i - phi_prev ! i +
         (dt_1d s)\<^sup>2 * ((c_1d s)\<^sup>2 * d2phi_dx2 - (omega0_1d s)\<^sup>2 * phi ! i))"

definition interior_1d :: "sim1d \<Rightarrow> real list \<Rightarrow> real list \<Rightarrow> real list" where
  "interior_1d s phi phi_prev =
     fold (\<lambda>i phi_next. phi_next[i := stencil_1d s phi phi_prev i])
          [1..<nat (Nx_1d s - 1)] (replicate (length phi) 0)"

text \<open>
  Reading \<open>phi[i+1]\<close> or \<open>phi_prev[i]\<close> past the end of an array raises \<open>IndexError\<close>,
  and so does \<open>phi_next[0] = 0\<close> on an empty array. With a non-empty interior loop the
  largest indices read are \<open>Nx - 1\<close> in \<open>phi\<close> and \<open>Nx - 2\<close> in \<open>phi_prev\<close>.
\<close>

definition advance_1d :: "sim1d \<Rightarrow> real list \<Rightarrow> real list \<Rightarrow> error + real list" where
  "advance_1d s phi phi_prev =
     (if 3 \<le> Nx_1d s \<and> (length phi < nat (Nx_1d s) \<or> length phi_prev < nat (Nx_1d s - 1))
        then Inl IndexError
      else if phi = [] then Inl IndexError
      else
        (let phi_next = interior_1d s phi phi_prev;
             phi_next = phi_next[0 := 0];
             phi_next = phi_next[length phi_next - 1 := 0]
         in Inr phi_next))"

text \<open>\<^verbatim>\<open>np.max(np.abs(phi))\<close>: the maximum of an empty array raises \<open>ValueError\<close>.\<close>

definition amax_abs :: "real list \<Rightarrow> error + real" where
  "amax_abs phi =
     (case map abs phi of [] \<Rightarrow> Inl ValueError | v # vs \<Rightarrow> Inr (fold max vs v))"

text \<open>
  \<^verbatim>\<open>simulate\<close> (lines 58-104). The state of the loop is the instance together with
  the two local buffers \<open>phi\<close> and \<open>phi_prev\<close>. \<open>t % save_every\<close> raises
  \<open>ZeroDivisionError\<close> for \<open>save_every = 0\<close>; for a non-zero divisor Python's \<open>%\<close> on
  integers is the \<open>mod\<close> of HOL's \<open>int\<close> (the sign of the divisor). An exception leaves
  the run; the partly written histories of the instance are then not part of the result.
\<close>

type_synonym loop1d = "sim1d \<times> real list \<times> real list"

definition step_1d :: "int \<Rightarrow> int \<Rightarrow> loop1d \<Rightarrow> error + loop1d" where
  "step_1d save_every t st =
     (case st of (s, phi, phi_prev) \<Rightarrow>
        (case advance_1d s phi phi_prev of
           Inl e \<Rightarrow> Inl e
         | Inr phi_next \<Rightarrow>
             if save_every = 0 then Inl ZeroDivisionError
             else
               (let s1 = (if t mod save_every = 0
                          then s\<lparr> phi_history_1d := phi_history_1d s @ [phi_next],
                                  time_points_1d := time_points_1d s @ [of_int t * dt_1d s] \<rparr>
                          else s)
                in case amax_abs phi_next of
                     Inl e \<Rightarrow> Inl e
                   | Inr m \<Rightarrow>
                       Inr (s1\<lparr> max_amplitude_1d := max_amplitude_1d s1 @ [m] \<rparr>,
                            phi_next, phi))))"

fun loop_1d :: "int \<Rightarrow> int list \<Rightarrow> loop1d \<Rightarrow> error + loop1d" where
  "loop_1d save_every [] st = Inr st"
| "loop_1d save_every (t # ts) st =
     (case step_1d save_every t st of
        Inl e \<Rightarrow> Inl e
      | Inr st' \<Rightarrow> loop_1d save_every ts st')"

definition start_1d :: "sim1d \<Rightarrow> error + loop1d" where
  "start_1d s =
     (let phi = gaussian_pulse s; phi_prev = phi
      in case amax_abs phi of
           Inl e \<Rightarrow> Inl e
         | Inr m \<Rightarrow>
             Inr (s\<lparr> phi_history_1d := phi_history_1d s @ [phi],
                     time_points_1d := time_points_1d s @ [0],
                     max_amplitude_1d := max_amplitude_1d s @ [m] \<rparr>, phi, phi_prev))"

definition simulate_1d :: "int \<Rightarrow> int \<Rightarrow> sim1d \<Rightarrow> error + sim1d" where
  "simulate_1d Nt save_every s =
     (case start_1d s of
        Inl e \<Rightarrow> Inl e
      | Inr st \<Rightarrow>
          (case loop_1d save_every [1..Nt] st of
             Inl e \<Rightarrow> Inl e
           | Inr st' \<Rightarrow> Inr (fst st')))"

section \<open>wave\_2d.py: class VGTSimulation2D\<close>

text \<open>
  A 2D array is the list of its rows: \<open>phi ! r ! k\<close> is \<open>phi[r, k]\<close>, axis 0 (the
  rows, \<open>Ny\<close> of them) first and axis 1 (the columns, \<open>Nx\<close>) second, as
  \<^verbatim>\<open>np.meshgrid(x, y)\<close> lays them out.
\<close>

type_synonym field2d = "real list list"

record sim2d =
  Lx_2d :: real
  Ly_2d :: real
  Nx_2d :: int
  Ny_2d :: int
  c_2d :: real
  omega0_2d :: real
  dx_2d :: real
  dy_2d :: real
  dt_2d :: real
  x_2d :: "real list"
  y_2d :: "real list"
  X_2d :: field2d
  Y_2d :: field2d
  phi_history_2d :: "field2d list"
  time_points_2d :: "real list"
  energy_history_2d :: "real list"

definition nrows :: "field2d \<Rightarrow> nat" where
  "nrows m = length m"

definition ncols :: "field2d \<Rightarrow> nat" where
  "ncols m = (case m of [] \<Rightarrow> 0 | row # _ \<Rightarrow> length row)"

text \<open>\<^verbatim>\<open>X, Y = np.meshgrid(x, y)\<close>: \<open>X[r, k] = x[k]\<close> and \<open>Y[r, k] = y[r]\<close>.\<close>

definition meshgrid_X :: "real list \<Rightarrow> real list \<Rightarrow> field2d" where
  "meshgrid_X x y = replicate (length y) x"

definition meshgrid_Y :: "real list \<Rightarrow> real list \<Rightarrow> field2d" where
  "meshgrid_Y x y = map (\<lambda>yr. replicate (length x) yr) y"

text \<open>
  \<^verbatim>\<open>__init__\<close> (lines 17-54): the divisions \<open>Lx / Nx\<close>, \<open>Ly / Ny\<close> and \<open>... / c\<close>
  raise \<open>ZeroDivisionError\<close> on a zero divisor, in this order, and the two calls of
  \<open>np.linspace\<close> raise \<open>ValueError\<close> on a negative number of samples.
\<close>

definition init_2d :: "real \<Rightarrow> real \<Rightarrow> int \<Rightarrow> int \<Rightarrow> real \<Rightarrow> real \<Rightarrow> real \<Rightarrow> error + sim2d" where
  "init_2d Lx Ly Nx Ny c omega0 dt_factor =
     (if Nx = 0 then Inl ZeroDivisionError
      else if Ny = 0 then Inl ZeroDivisionError
      else if c = 0 then Inl ZeroDivisionError
      else if Nx < 0 then Inl ValueError
      else if Ny < 0 then Inl ValueError
      else
        (let dx = Lx / of_int Nx; dy = Ly / of_int Ny;
             x = linspace 0 Lx (nat Nx); y = linspace 0 Ly (nat Ny)
         in Inr \<lparr> Lx_2d = Lx, Ly_2d = Ly, Nx_2d = Nx, Ny_2d = Ny, c_2d = c, omega0_2d = omega0,
                    dx_2d = dx, dy_2d = dy, dt_2d = dt_factor * min dx dy / c,
                    x_2d = x, y_2d = y, X_2d = meshgrid_X x y, Y_2d = meshgrid_Y x y,
                    phi_history_2d = [], time_points_2d = [], energy_history_2d = [] \<rparr>))"

text \<open>
  \<^verbatim>\<open>gaussian_pulse_2d\<close> (lines 56-62) and \<^verbatim>\<open>ring_pulse\<close> (lines 64-70); the
  argument \<open>center=None\<close> is \<open>None\<close> here and stands for the middle of the domain.
\<close>

definition gaussian_pulse_2d :: "sim2d \<Rightarrow> (real \<times> real) option \<Rightarrow> real \<Rightarrow> real \<Rightarrow> field2d" where
  "gaussian_pulse_2d s center width amplitude =
     (let center = (case center of None \<Rightarrow> (Lx_2d s / 2, Ly_2d s / 2) | Some p \<Rightarrow> p);
          r2 = map2 (map2 (\<lambda>Xv Yv. (Xv - fst center)\<^sup>2 + (Yv - snd center)\<^sup>2)) (X_2d s) (Y_2d s)
      in map (map (\<lambda>r2v. amplitude * exp (- r2v / width\<^sup>2))) r2)"

definition ring_pulse :: "sim2d \<Rightarrow> (real \<times> real) option \<Rightarrow> real \<Rightarrow> real \<Rightarrow> real \<Rightarrow> field2d" where
  "ring_pulse s center radius width amplitude =
     (let center = (case center of None \<Rightarrow> (Lx_2d s / 2, Ly_2d s / 2) | Some p \<Rightarrow> p);
          r = map2 (map2 (\<lambda>Xv Yv. sqrt ((Xv - fst center)\<^sup>2 + (Yv - snd center)\<^sup>2))) (X_2d s) (Y_2d s)
      in map (map (\<lambda>rv. amplitude * exp (- ((rv - radius)\<^sup>2) / width\<^sup>2))) r)"

text \<open>
  \<^verbatim>\<open>laplacian_2d\<close> (lines 72-82): a zero array whose interior block \<open>[1:-1, 1:-1]\<close> is
  assigned from the shifted slices of \<open>phi\<close>; cell by cell, the slice \<open>phi[1:-1, 2:]\<close>
  is the right neighbour, \<open>phi[1:-1, :-2]\<close> the left one, \<open>phi[2:, 1:-1]\<close> the row below
  and \<open>phi[:-2, 1:-1]\<close> the row above.
\<close>

definition laplacian_2d :: "sim2d \<Rightarrow> field2d \<Rightarrow> field2d" where
  "laplacian_2d s phi =
     map (\<lambda>r. map (\<lambda>k.
            if 1 \<le> r \<and> r + 1 < nrows phi \<and> 1 \<le> k \<and> k + 1 < ncols phi
            then (phi ! r ! (k + 1) - 2 * phi ! r ! k + phi ! r ! (k - 1)) / (dx_2d s)\<^sup>2 +
                 (phi ! (r + 1) ! k - 2 * phi ! r ! k + phi ! (r - 1) ! k) / (dy_2d s)\<^sup>2
            else 0) [0..<ncols phi]) [0..<nrows phi]"

text \<open>
  The body of the time loop, lines 114-126: the elementwise update and the four
  assignments that clear the first and last row and the first and last column. Indexing
  row \<open>0\<close> or column \<open>0\<close> of an array with no row or no column raises \<open>IndexError\<close>.
\<close>

definition update_2d :: "sim2d \<Rightarrow> field2d \<Rightarrow> field2d \<Rightarrow> field2d" where
  "update_2d s phi phi_prev =
     (let laplacian = laplacian_2d s phi
      in map (\<lambda>r. map (\<lambda>k.
            2 * phi ! r ! k - phi_prev ! r ! k +
            (dt_2d s)\<^sup>2 * ((c_2d s)\<^sup>2 * laplacian ! r ! k - (omega0_2d s)\<^sup>2 * phi ! r ! k))
          [0..<ncols phi]) [0..<nrows phi])"

definition advance_2d :: "sim2d \<Rightarrow> field2d \<Rightarrow> field2d \<Rightarrow> error + field2d" where
  "advance_2d s phi phi_prev =
     (if nrows phi = 0 \<or> ncols phi = 0 then Inl IndexError
      else
        (let phi_next = update_2d s phi phi_prev;
             phi_next = phi_next[0 := replicate (ncols phi) 0];
             phi_next = phi_next[length phi_next - 1 := replicate (ncols phi) 0];
             phi_next = map (\<lambda>row. row[0 := 0]) phi_next;
             phi_next = map (\<lambda>row. row[length row - 1 := 0]) phi_next
         in Inr phi_next))"

text \<open>
  \<^verbatim>\<open>np.gradient(f, h, axis=...)\<close> with its default \<open>edge_order=1\<close>, as numpy computes
  it: \<open>out[1:-1] = (f[2:] - f[:-2]) / (2 h)\<close>, \<open>out[0] = (f[1] - f[0]) / h\<close> and
  \<open>out[-1] = (f[-1] - f[-2]) / h\<close>. Along axis 1 this is done in every row; along
  axis 0 the entries are whole rows. Fewer than two entries along the axis raise
  \<open>ValueError\<close>, which \<open>compute_energy\<close> below checks before it calls these functions.
\<close>

definition gradient_1 :: "real list \<Rightarrow> real \<Rightarrow> real list" where
  "gradient_1 f h =
     [(f ! 1 - f ! 0) / h] @
     map2 (\<lambda>a b. (a - b) / (2 * h)) (drop 2 f) (take (length f - 2) f) @
     [(f ! (length f - 1) - f ! (length f - 2)) / h]"

definition gradient_axis1 :: "field2d \<Rightarrow> real \<Rightarrow> field2d" where
  "gradient_axis1 phi h = map (\<lambda>row. gradient_1 row h) phi"

definition gradient_axis0 :: "field2d \<Rightarrow> real \<Rightarrow> field2d" where
  "gradient_axis0 phi h =
     [map2 (\<lambda>a b. (a - b) / h) (phi ! 1) (phi ! 0)] @
     map2 (map2 (\<lambda>a b. (a - b) / (2 * h))) (drop 2 phi) (take (length phi - 2) phi) @
     [map2 (\<lambda>a b. (a - b) / h) (phi ! (length phi - 1)) (phi ! (length phi - 2))]"

text \<open>\<^verbatim>\<open>np.sum\<close> of a 2D array.\<close>

definition sum2 :: "field2d \<Rightarrow> real" where
  "sum2 m = sum_list (map sum_list m)"

text \<open>\<^verbatim>\<open>compute_energy\<close> (lines 140-152).\<close>

definition compute_energy :: "sim2d \<Rightarrow> field2d \<Rightarrow> field2d \<Rightarrow> error + real" where
  "compute_energy s phi phi_prev =
     (let dphi_dt = map2 (map2 (\<lambda>a b. (a - b) / dt_2d s)) phi phi_prev;
          kinetic = 0.5 * sum2 (map (map (\<lambda>v. v\<^sup>2)) dphi_dt) * dx_2d s * dy_2d s
      in if ncols phi < 2 then Inl ValueError
         else if nrows phi < 2 then Inl ValueError
         else
           (let grad_x = gradient_axis1 phi (dx_2d s);
                grad_y = gradient_axis0 phi (dy_2d s);
                potential = 0.5 * sum2 (map2 (map2 (+))
                                (map2 (map2 (+)) (map (map (\<lambda>v. v\<^sup>2)) grad_x)
                                                 (map (map (\<lambda>v. v\<^sup>2)) grad_y))
                                (map (map (\<lambda>v. (omega0_2d s)\<^sup>2 * v\<^sup>2)) phi))
                            * dx_2d s * dy_2d s
            in Inr (kinetic + potential)))"

text \<open>
  \<^verbatim>\<open>simulate\<close> (lines 84-138). The initial field is chosen by \<open>initial_type\<close> alone
  (lines 98-103), with the default arguments of the two generators.
\<close>

definition initial_field_2d :: "string \<Rightarrow> sim2d \<Rightarrow> error + field2d" where
  "initial_field_2d initial_type s =
     (if initial_type = ''gaussian'' then Inr (gaussian_pulse_2d s None 1 1)
      else if initial_type = ''ring'' then Inr (ring_pulse s None 3 0.5 1)
      else Inl ValueError)"

type_synonym loop2d = "sim2d \<times> field2d \<times> field2d"

definition start_2d :: "string \<Rightarrow> sim2d \<Rightarrow> error + loop2d" where
  "start_2d initial_type s =
     (case initial_field_2d initial_type s of
        Inl e \<Rightarrow> Inl e
      | Inr phi \<Rightarrow>
          (let phi_prev = phi
           in case compute_energy s phi phi_prev of
                Inl e \<Rightarrow> Inl e
              | Inr en \<Rightarrow>
                  Inr (s\<lparr> phi_history_2d := phi_history_2d s @ [phi],
                          time_points_2d := time_points_2d s @ [0],
                          energy_history_2d := energy_history_2d s @ [en] \<rparr>, phi, phi_prev)))"

definition step_2d :: "int \<Rightarrow> int \<Rightarrow> loop2d \<Rightarrow> error + loop2d" where
  "step_2d save_every t st =
     (case st of (s, phi, phi_prev) \<Rightarrow>
        (case advance_2d s phi phi_prev of
           Inl e \<Rightarrow> Inl e
         | Inr phi_next \<Rightarrow>
             if save_every = 0 then Inl ZeroDivisionError
             else if t mod save_every = 0 then
               (case compute_energy s phi_next phi of
                  Inl e \<Rightarrow> Inl e
                | Inr en \<Rightarrow>
                    Inr (s\<lparr> phi_history_2d := phi_history_2d s @ [phi_next],
                            time_points_2d := time_points_2d s @ [of_int t * dt_2d s],
                            energy_history_2d := energy_history_2d s @ [en] \<rparr>, phi_next, phi))
             else Inr (s, phi_next, phi)))"

fun loop_2d :: "int \<Rightarrow> int list \<Rightarrow> loop2d \<Rightarrow> error + loop2d" where
  "loop_2d save_every [] st = Inr st"
| "loop_2d save_every (t # ts) st =
     (case step_2d save_every t st of
        Inl e \<Rightarrow> Inl e
      | Inr st' \<Rightarrow> loop_2d save_every ts st')"

definition simulate_2d :: "int \<Rightarrow> int \<Rightarrow> string \<Rightarrow> sim2d \<Rightarrow> error + sim2d" where
  "simulate_2d Nt save_every initial_type s =
     (case start_2d initial_type s of
        Inl e \<Rightarrow> Inl e
      | Inr st \<Rightarrow>
          (case loop_2d save_every [1..Nt] st of
             Inl e \<Rightarrow> Inl e
           | Inr st' \<Rightarrow> Inr (fst st')))"

text \<open>
  \<^verbatim>\<open>demonstrate_interference\<close> (lines 301-319), up to the call of \<open>simulate\<close>; the
  plotting that follows is left out. \<open>phi1 + phi2\<close> is the elementwise sum.
\<close>

definition interference_seed :: "sim2d \<Rightarrow> field2d" where
  "interference_seed sim =
     (let phi1 = gaussian_pulse_2d sim (Some (10, 15)) 1.0 0.7;
          phi2 = gaussian_pulse_2d sim (Some (20, 15)) 1.0 0.7
      in map2 (map2 (+)) phi1 phi2)"

definition demonstrate_interference :: "error + sim2d" where
  "demonstrate_interference =
     (case init_2d 30 30 300 300 1.0 1.5 0.5 of
        Inl e \<Rightarrow> Inl e
      | Inr sim \<Rightarrow>
          simulate_2d 150 5 ''gaussian''
            (sim\<lparr> phi_history_2d := [interference_seed sim], time_points_2d := [0] \<rparr>))"

section \<open>dispersion.py: DispersionAnalyzer.analyze\_stability\<close>

text \<open>
  The CFL panel (lines 167-175): the scanned factors and the flag appended for each.
\<close>

definition dt_factors :: "real list" where
  "dt_factors = linspace 0.1 2.0 20"

definition stable_flag :: "real \<Rightarrow> int" where
  "stable_flag dt_f = (let stable = dt_f < 1.0 / sqrt 2 in if stable then 1 else 0)"

definition stability :: "int list" where
  "stability = map stable_flag dt_factors"

text \<open>
  The amplitude panel (lines 187-218). \<^verbatim>\<open>scipy.optimize.curve_fit\<close> is not code of this
  repository: it is a parameter \<open>fit\<close> taking the time axis, the amplitudes and the
  start values \<open>p0\<close>, whose result \<open>None\<close> stands for any exception it raises (no
  convergence within its budget of evaluations, fewer data points than parameters, ...).
  The picture drawn is the list of the calls of \<open>ax.plot\<close>, each with its two data
  arrays, its format string and its label; the label \<open>Fit \<tau>\<close> stands for the text
  \<^verbatim>\<open>f'Fit: tau = {popt[1]:.2f}'\<close>.
\<close>

datatype plot_label = Simulation | Fit real

datatype artist = Plot "real list" "real list" string plot_label

type_synonym curve_fit = "real list \<Rightarrow> real list \<Rightarrow> real \<times> real \<times> real \<Rightarrow> (real \<times> real \<times> real) option"

definition exp_decay :: "real \<Rightarrow> real \<Rightarrow> real \<Rightarrow> real \<Rightarrow> real" where
  "exp_decay t A tau offset = A * exp (- t / tau) + offset"

text \<open>
  The body of the \<open>try\<close> (lines 205-210): \<open>amp[0]\<close>, \<open>time[-1]\<close> and \<open>amp[-1]\<close> raise
  \<open>IndexError\<close> on empty arrays, then the fit may raise; \<open>None\<close> is any exception.
\<close>

definition try_fit :: "curve_fit \<Rightarrow> real list \<Rightarrow> real list \<Rightarrow> artist list option" where
  "try_fit fit time amp =
     (if amp = [] \<or> time = [] then None
      else
        (case fit time amp (amp ! 0, last time / 2, last amp) of
           None \<Rightarrow> None
         | Some (A, tau, offset) \<Rightarrow>
             Some [Plot time amp ''b.'' Simulation,
                   Plot time (map (\<lambda>t. exp_decay t A tau offset) time) ''r-'' (Fit tau)]))"

text \<open>The \<open>try\<close> with its bare \<open>except:\<close> (lines 204-212), which catches every exception.\<close>

definition amplitude_fit :: "curve_fit \<Rightarrow> real list \<Rightarrow> real list \<Rightarrow> artist list" where
  "amplitude_fit fit time amp =
     (case try_fit fit time amp of
        Some drawn \<Rightarrow> drawn
      | None \<Rightarrow> [Plot time amp ''b-'' Simulation])"

text \<open>
  The data the panel reads (lines 189-198): \<open>self.data['max_amplitude']\<close>, an array or a
  single number, and \<open>self.data['dt']\<close> with the default \<open>0.01\<close>; without the key
  \<open>max_amplitude\<close> nothing is drawn.
\<close>

datatype amplitude_entry = Series "real list" | Single real

record analysis_data =
  data_max_amplitude :: "amplitude_entry option"
  data_dt :: "real option"

definition amplitude_series :: "analysis_data \<Rightarrow> (real list \<times> real list) option" where
  "amplitude_series data =
     (case data_max_amplitude data of
        None \<Rightarrow> None
      | Some (Series amp) \<Rightarrow>
          (let dt = (case data_dt data of Some d \<Rightarrow> d | None \<Rightarrow> 0.01);
               time = map (\<lambda>i. real i * dt) [0..<length amp]
           in Some (time, amp))
      | Some (Single v) \<Rightarrow> Some ([0], [v]))"

definition amplitude_panel :: "curve_fit \<Rightarrow> analysis_data \<Rightarrow> artist list" where
  "amplitude_panel fit data =
     (case amplitude_series data of
        None \<Rightarrow> []
      | Some (time, amp) \<Rightarrow> amplitude_fit fit time amp)"

text \<open>
  \<^verbatim>\<open>analyze_stability\<close> (lines 163-287) with its default \<open>save_path=None\<close>: what the
  call hands to its caller. The method has no \<open>raise\<close> and no status value; it ends with
  \<open>return fig\<close>, so the result is \<open>Inr\<close> of the figure, which is modelled by what has been
  drawn into its CFL panel (the factors against their flags) and its amplitude panel. The
  two other panels (the spectra of the snapshots and the fixed convergence table) do not
  use the fit and are left out. A result \<open>Inl e\<close> would be an exception reaching the caller.
\<close>

record stability_figure =
  cfl_axes :: "real list \<times> int list"
  amplitude_axes :: "artist list"

definition analyze_stability :: "curve_fit \<Rightarrow> analysis_data \<Rightarrow> error + stability_figure" where
  "analyze_stability fit data =
     Inr \<lparr> cfl_axes = (dt_factors, stability), amplitude_axes = amplitude_panel fit data \<rparr>"

section \<open>Notions used in the statements\<close>

text \<open>
  The three result lists of an instance are empty after construction and only grow.
  \<open>fresh_1d s\<close> is \<open>s\<close> with the lists emptied again, and \<open>preload_1d h t a s\<close> is \<open>s\<close> with
  \<open>h\<close>, \<open>t\<close> and \<open>a\<close> put in front of its lists: an instance that already holds results,
  from an earlier run or from an assignment such as \<^verbatim>\<open>sim.phi_history = [...]\<close>.
  The same for the 2D class.
\<close>

definition fresh_1d :: "sim1d \<Rightarrow> sim1d" where
  "fresh_1d s = s\<lparr> phi_history_1d := [], time_points_1d := [], max_amplitude_1d := [] \<rparr>"

definition preload_1d :: "real list list \<Rightarrow> real list \<Rightarrow> real list \<Rightarrow> sim1d \<Rightarrow> sim1d" where
  "preload_1d h t a s =
     s\<lparr> phi_history_1d := h @ phi_history_1d s,
        time_points_1d := t @ time_points_1d s,
        max_amplitude_1d := a @ max_amplitude_1d s \<rparr>"

definition fresh_2d :: "sim2d \<Rightarrow> sim2d" where
  "fresh_2d s = s\<lparr> phi_history_2d := [], time_points_2d := [], energy_history_2d := [] \<rparr>"

definition preload_2d :: "field2d list \<Rightarrow> real list \<Rightarrow> real list \<Rightarrow> sim2d \<Rightarrow> sim2d" where
  "preload_2d h t e s =
     s\<lparr> phi_history_2d := h @ phi_history_2d s,
        time_points_2d := t @ time_points_2d s,
        energy_history_2d := e @ energy_history_2d s \<rparr>"

text \<open>
  An instance has the shape the constructor gives it when the coordinate arrays have
  \<open>Nx\<close> (and \<open>Ny\<close>) entries, at least one each, and the meshes are built from them.
\<close>

definition grid_ok_1d :: "sim1d \<Rightarrow> bool" where
  "grid_ok_1d s = (1 \<le> Nx_1d s \<and> length (x_1d s) = nat (Nx_1d s))"

definition grid_ok_2d :: "sim2d \<Rightarrow> bool" where
  "grid_ok_2d s =
     (1 \<le> Nx_2d s \<and> 1 \<le> Ny_2d s \<and>
      length (x_2d s) = nat (Nx_2d s) \<and> length (y_2d s) = nat (Ny_2d s) \<and>
      X_2d s = meshgrid_X (x_2d s) (y_2d s) \<and> Y_2d s = meshgrid_Y (x_2d s) (y_2d s))"

text \<open>
  The Dirichlet condition on a field: the first and the last cell are 0 (1D); the first
  and the last row are 0 and every row begins and ends with 0 (2D).
\<close>

definition boundary_zero_1d :: "real list \<Rightarrow> bool" where
  "boundary_zero_1d phi = (phi \<noteq> [] \<and> hd phi = 0 \<and> last phi = 0)"

definition boundary_zero_2d :: "field2d \<Rightarrow> bool" where
  "boundary_zero_2d phi =
     (phi \<noteq> [] \<and> list_all (\<lambda>v. v = 0) (hd phi) \<and> list_all (\<lambda>v. v = 0) (last phi) \<and>
      list_all (\<lambda>row. row \<noteq> [] \<and> hd row = 0 \<and> last row = 0) phi)"

text \<open>A 2D array of \<open>nr\<close> rows and \<open>nc\<close> columns.\<close>

definition has_shape :: "nat \<Rightarrow> nat \<Rightarrow> field2d \<Rightarrow> bool" where
  "has_shape nr nc m = (length m = nr \<and> list_all (\<lambda>row. length row = nc) m)"

text \<open>
  The energy as the specification words it, to be compared with \<open>compute_energy\<close>: the
  kinetic term \<open>\<onehalf> \<Sigma> ((cur - prev) / dt)\<^sup>2 dx dy\<close> plus the potential term
  \<open>\<onehalf> \<Sigma> (gradient_x\<^sup>2 + gradient_y\<^sup>2 + \<omega>\<^sub>0\<^sup>2 cur\<^sup>2) dx dy\<close>, the sums running over all cells
  \<open>(r, k)\<close> of an \<open>nr \<times> nc\<close> grid. \<open>spec_difference h f n i\<close> is the derivative estimate at
  index \<open>i\<close> of the profile \<open>f\<close> of \<open>n\<close> points: centered at an interior index, one-sided
  at the two ends.
\<close>

definition spec_difference :: "real \<Rightarrow> (nat \<Rightarrow> real) \<Rightarrow> nat \<Rightarrow> nat \<Rightarrow> real" where
  "spec_difference h f n i =
     (if i = 0 then (f 1 - f 0) / h
      else if i = n - 1 then (f (n - 1) - f (n - 2)) / h
      else (f (i + 1) - f (i - 1)) / (2 * h))"

definition spec_energy ::
  "real \<Rightarrow> real \<Rightarrow> real \<Rightarrow> real \<Rightarrow> nat \<Rightarrow> nat \<Rightarrow> field2d \<Rightarrow> field2d \<Rightarrow> real" where
  "spec_energy dt dx dy omega0 nr nc cur prev =
     1 / 2 * (\<Sum>r\<leftarrow>[0..<nr]. \<Sum>k\<leftarrow>[0..<nc]. ((cur ! r ! k - prev ! r ! k) / dt)\<^sup>2) * dx * dy +
     1 / 2 * (\<Sum>r\<leftarrow>[0..<nr]. \<Sum>k\<leftarrow>[0..<nc].
                (spec_difference dx (\<lambda>i. cur ! r ! i) nc k)\<^sup>2 +
                (spec_difference dy (\<lambda>j. cur ! j ! k) nr r)\<^sup>2 +
                omega0\<^sup>2 * (cur ! r ! k)\<^sup>2) * dx * dy"

section \<open>The 1D update\<close>

lemma length_fold_update:
  "length (fold (\<lambda>i ys. ys[i := f i]) js ys0) = length ys0"
  by (induction js arbitrary: ys0) simp_all

lemma nth_fold_update:
  "k < length ys0 \<Longrightarrow>
   fold (\<lambda>i ys. ys[i := f i]) js ys0 ! k = (if k \<in> set js then f k else ys0 ! k)"
proof (induction js arbitrary: ys0)
  case Nil
  then show ?case by simp
next
  case (Cons j js)
  have "fold (\<lambda>i ys. ys[i := f i]) (j # js) ys0 ! k
        = fold (\<lambda>i ys. ys[i := f i]) js (ys0[j := f j]) ! k"
    by simp
  also have "\<dots> = (if k \<in> set js then f k else ys0[j := f j] ! k)"
    using Cons.prems by (intro Cons.IH) simp
  also have "\<dots> = (if k \<in> set (j # js) then f k else ys0 ! k)"
    using Cons.prems by (cases "k = j") auto
  finally show ?case .
qed

lemma length_interior_1d: "length (interior_1d s phi phi_prev) = length phi"
  by (simp add: interior_1d_def length_fold_update)

lemma nth_interior_1d:
  assumes "k < length phi"
  shows "interior_1d s phi phi_prev ! k =
           (if 1 \<le> k \<and> k < nat (Nx_1d s - 1) then stencil_1d s phi phi_prev k else 0)"
  using assms by (simp add: interior_1d_def nth_fold_update)

lemma advance_1d_Inr:
  assumes "length phi = nat (Nx_1d s)" "length phi_prev = nat (Nx_1d s)" "1 \<le> Nx_1d s"
  shows "advance_1d s phi phi_prev =
           Inr ((interior_1d s phi phi_prev)[0 := 0, nat (Nx_1d s) - 1 := 0])"
proof -
  have "phi \<noteq> []" using assms by auto
  moreover have "\<not> length phi_prev < nat (Nx_1d s - 1)" using assms by simp
  ultimately show ?thesis
    using assms by (simp add: advance_1d_def Let_def length_interior_1d)
qed

text \<open>
  C1. For a field of length \<open>N = Nx \<ge> 3\<close> with \<open>dx > 0\<close> and \<open>c > 0\<close>, one pass through
  the loop body returns \<open>next\<close> with
  \<open>next[i] = 2 cur[i] - prev[i] + dt\<^sup>2 (c\<^sup>2 (cur[i+1] - 2 cur[i] + cur[i-1]) / dx\<^sup>2 - \<omega>\<^sub>0\<^sup>2 cur[i])\<close>
  at every interior index \<open>1 \<le> i \<le> N - 2\<close>, and \<open>next[0] = next[N-1] = 0\<close>.
\<close>

theorem advance_1d_leapfrog:
  assumes len: "length cur = nat (Nx_1d s)" "length prev = nat (Nx_1d s)"
    and N: "3 \<le> Nx_1d s" and pos: "0 < dx_1d s" "0 < c_1d s"
  shows "\<exists>nxt. advance_1d s cur prev = Inr nxt \<and> length nxt = nat (Nx_1d s) \<and>
           (\<forall>i. 1 \<le> i \<and> i \<le> nat (Nx_1d s) - 2 \<longrightarrow>
              nxt ! i = 2 * cur ! i - prev ! i +
                (dt_1d s)\<^sup>2 * ((c_1d s)\<^sup>2 * (cur ! (i + 1) - 2 * cur ! i + cur ! (i - 1)) / (dx_1d s)\<^sup>2
                              - (omega0_1d s)\<^sup>2 * cur ! i)) \<and>
           nxt ! 0 = 0 \<and> nxt ! (nat (Nx_1d s) - 1) = 0"
proof -
  let ?n = "nat (Nx_1d s)"
  let ?nxt = "(interior_1d s cur prev)[0 := 0, ?n - 1 := 0]"
  have n3: "3 \<le> ?n" using N by simp
  have run: "advance_1d s cur prev = Inr ?nxt"
    using len N by (intro advance_1d_Inr) simp_all
  have lenI: "length (interior_1d s cur prev) = ?n"
    by (simp add: length_interior_1d len)
  have inner: "?nxt ! i = 2 * cur ! i - prev ! i +
                (dt_1d s)\<^sup>2 * ((c_1d s)\<^sup>2 * (cur ! (i + 1) - 2 * cur ! i + cur ! (i - 1)) / (dx_1d s)\<^sup>2
                              - (omega0_1d s)\<^sup>2 * cur ! i)"
    if "1 \<le> i \<and> i \<le> ?n - 2" for i
  proof -
    have i: "i < ?n" "i \<noteq> 0" "i \<noteq> ?n - 1" "i < nat (Nx_1d s - 1)"
      using that n3 N by arith+
    have "?nxt ! i = interior_1d s cur prev ! i"
      using i by simp
    also have "\<dots> = stencil_1d s cur prev i"
      using i that len by (simp add: nth_interior_1d)
    finally show ?thesis by (simp add: stencil_1d_def Let_def)
  qed
  have "?nxt ! 0 = 0" using n3 lenI by (simp add: nth_list_update)
  moreover have "?nxt ! (?n - 1) = 0" using n3 lenI by simp
  moreover have "length ?nxt = ?n" using lenI by simp
  ultimately show ?thesis using run inner by blast
qed

text \<open>
  The instance built by \<open>VGTSimulation1D(L=2, Nx=3, c=1, omega0=2, dt_factor=1/2,
  pulse_width=1/10)\<close> has \<open>dx = 2/3\<close> and \<open>dt = 1/3\<close>; from \<open>cur = prev = [0, 1, 0]\<close>
  the update gives \<open>[0, 1/18, 0]\<close>.
\<close>

theorem advance_1d_leapfrog_witness:
  "\<exists>nxt. advance_1d (projr (init_1d 2 3 1 2 (1/2) (1/10))) [0, 1, 0] [0, 1, 0] = Inr nxt \<and>
     length nxt = 3 \<and> nxt ! 1 = 1 / 18 \<and> nxt ! 0 = 0 \<and> nxt ! 2 = 0"
proof -
  let ?s = "projr (init_1d 2 3 1 2 (1/2) (1/10))"
  have s: "Nx_1d ?s = 3" "dx_1d ?s = 2 / 3" "c_1d ?s = 1" "dt_1d ?s = 1 / 3" "omega0_1d ?s = 2"
    by (simp_all add: init_1d_def)
  have "\<exists>nxt. advance_1d ?s [0, 1, 0] [0, 1, 0] = Inr nxt \<and> length nxt = nat (Nx_1d ?s) \<and>
           (\<forall>i. 1 \<le> i \<and> i \<le> nat (Nx_1d ?s) - 2 \<longrightarrow>
              nxt ! i = 2 * [0, 1, 0] ! i - [0, 1, 0] ! i +
                (dt_1d ?s)\<^sup>2 * ((c_1d ?s)\<^sup>2 * ([0, 1, 0] ! (i + 1) - 2 * [0, 1, 0] ! i + [0, 1, 0] ! (i - 1)) / (dx_1d ?s)\<^sup>2
                              - (omega0_1d ?s)\<^sup>2 * [0, 1, 0] ! i)) \<and>
           nxt ! 0 = 0 \<and> nxt ! (nat (Nx_1d ?s) - 1) = 0"
    by (rule advance_1d_leapfrog) (simp_all add: s)
  then obtain nxt where a: "advance_1d ?s [0, 1, 0] [0, 1, 0] = Inr nxt" "length nxt = 3"
     and b: "\<forall>i. 1 \<le> i \<and> i \<le> (1::nat) \<longrightarrow>
              nxt ! i = 2 * [0, 1, 0::real] ! i - [0, 1, 0] ! i +
                (1/3)\<^sup>2 * (1\<^sup>2 * ([0, 1, 0] ! (i + 1) - 2 * [0, 1, 0] ! i + [0, 1, 0] ! (i - 1)) / (2/3)\<^sup>2
                              - 2\<^sup>2 * [0, 1, 0] ! i)"
     and c: "nxt ! 0 = 0" "nxt ! 2 = 0"
    by (auto simp: s)
  from b have "nxt ! 1 = 1 / 18" by (simp add: power2_eq_square)
  with a c show ?thesis by (simp add: s)
qed

section \<open>Grid coordinates and the derived spacing\<close>


lemma length_linspace: "length (linspace a b n) = n"
  by (simp add: linspace_def)

lemma nth_linspace:
  assumes "i < n" "2 \<le> n"
  shows "linspace a b n ! i = a + real i * ((b - a) / real (n - 1))"
  using assms by (simp add: linspace_def)

lemma linspace_step:
  assumes "i + 1 < n"
  shows "linspace 0 b n ! (i + 1) - linspace 0 b n ! i = b / (real n - 1)"
proof -
  have n: "2 \<le> n" "i < n" using assms by simp_all
  have d: "real (n - 1) = real n - 1" using n by (simp add: of_nat_diff)
  have "linspace 0 b n ! (i + 1) - linspace 0 b n ! i
        = real (i + 1) * (b / real (n - 1)) - real i * (b / real (n - 1))"
    using assms n by (simp add: nth_linspace del: of_nat_Suc of_nat_add)
  also have "\<dots> = b / real (n - 1)"
  proof -
    have "real (i + 1) * d - real i * d = d" for d :: real
      by (simp add: algebra_simps)
    then show ?thesis .
  qed
  finally show ?thesis by (simp only: d)
qed

lemma spacing_gap:
  fixes b :: real
  assumes "0 < b" "2 \<le> n"
  shows "b / real n < b / (real n - 1)"
proof -
  have "0 < real n - 1" using assms by simp
  moreover have "real n - 1 < real n" by simp
  ultimately show ?thesis using assms(1) by (simp add: frac_less2)
qed

lemma init_1d_spacing:
  assumes L: "0 < L" and N: "2 \<le> Nx" and c: "c \<noteq> 0"
  shows "\<exists>s k. init_1d L Nx c omega0 dt_factor pulse_width = Inr s \<and>
           length (x_1d s) = nat Nx \<and>
           (\<forall>i. i + 1 < nat Nx \<longrightarrow> x_1d s ! (i + 1) - x_1d s ! i = L / (of_int Nx - 1)) \<and>
           dx_1d s = L / of_int Nx \<and>
           dx_1d s < L / (of_int Nx - 1) \<and>
           dt_1d s = dt_factor * dx_1d s / c \<and>
           wavenumbers_1d s = Inr k \<and> \<bar>k ! 1\<bar> = 2 * pi / (of_int Nx * dx_1d s)"
proof -
  let ?s = "projr (init_1d L Nx c omega0 dt_factor pulse_width)"
  have run: "init_1d L Nx c omega0 dt_factor pulse_width = Inr ?s"
    using N c by (simp add: init_1d_def)
  have f: "x_1d ?s = linspace 0 L (nat Nx)" "dx_1d ?s = L / of_int Nx"
          "dt_1d ?s = dt_factor * dx_1d ?s / c" "Nx_1d ?s = Nx"
    using N c by (simp_all add: init_1d_def)
  have rn: "real (nat Nx) = of_int Nx" using N by simp
  have n2: "2 \<le> nat Nx" using N by simp
  have step: "\<forall>i. i + 1 < nat Nx \<longrightarrow> x_1d ?s ! (i + 1) - x_1d ?s ! i = L / (of_int Nx - 1)"
    using linspace_step[of _ "nat Nx" L] by (simp add: f rn)
  have gap: "dx_1d ?s < L / (of_int Nx - 1)"
    using spacing_gap[OF L n2] by (simp add: f rn)
  have nz: "real (nat Nx) * dx_1d ?s \<noteq> 0" using L N by (simp add: f)
  let ?k = "map (\<lambda>v. v * 2 * pi)
      (map (\<lambda>i. (if i < (nat Nx - 1) div 2 + 1 then real i else real i - real (nat Nx)) * (1 / (real (nat Nx) * dx_1d ?s)))
                    [0..<nat Nx])"
  have k: "wavenumbers_1d ?s = Inr ?k"
    using nz by (simp add: wavenumbers_1d_def fftfreq_def f)
  have dxpos: "0 < dx_1d ?s" using L N by (simp add: f)
  have k1: "\<bar>?k ! 1\<bar> = 2 * pi / (of_int Nx * dx_1d ?s)"
  proof (cases "nat Nx = 2")
    case True
    then have "Nx = 2" by simp
    then show ?thesis using dxpos by (simp add: abs_mult)
  next
    case False
    then have "1 < (nat Nx - 1) div 2 + 1" using n2 by arith
    then show ?thesis using n2 dxpos N by (simp add: rn abs_mult)
  qed
  show ?thesis
    using run step gap k k1 f(2,3) by (intro exI[of _ ?s] exI[of _ ?k]) (simp add: f(1) length_linspace)
qed

lemma init_2d_spacing:
  assumes L: "0 < Lx" "0 < Ly" and N: "2 \<le> Nx" "2 \<le> Ny" and c: "c \<noteq> 0"
  shows "\<exists>s. init_2d Lx Ly Nx Ny c omega0 dt_factor = Inr s \<and>
           length (x_2d s) = nat Nx \<and> length (y_2d s) = nat Ny \<and>
           (\<forall>i. i + 1 < nat Nx \<longrightarrow> x_2d s ! (i + 1) - x_2d s ! i = Lx / (of_int Nx - 1)) \<and>
           (\<forall>j. j + 1 < nat Ny \<longrightarrow> y_2d s ! (j + 1) - y_2d s ! j = Ly / (of_int Ny - 1)) \<and>
           dx_2d s = Lx / of_int Nx \<and> dx_2d s < Lx / (of_int Nx - 1) \<and>
           dy_2d s = Ly / of_int Ny \<and> dy_2d s < Ly / (of_int Ny - 1) \<and>
           dt_2d s = dt_factor * min (dx_2d s) (dy_2d s) / c"
proof -
  let ?s = "projr (init_2d Lx Ly Nx Ny c omega0 dt_factor)"
  have run: "init_2d Lx Ly Nx Ny c omega0 dt_factor = Inr ?s"
    using N c by (simp add: init_2d_def Let_def)
  have f: "x_2d ?s = linspace 0 Lx (nat Nx)" "y_2d ?s = linspace 0 Ly (nat Ny)"
          "dx_2d ?s = Lx / of_int Nx" "dy_2d ?s = Ly / of_int Ny"
          "dt_2d ?s = dt_factor * min (dx_2d ?s) (dy_2d ?s) / c"
    using N c by (simp_all add: init_2d_def Let_def)
  have rn: "real (nat Nx) = of_int Nx" "real (nat Ny) = of_int Ny" using N by simp_all
  have n2: "2 \<le> nat Nx" "2 \<le> nat Ny" using N by simp_all
  have stepx: "\<forall>i. i + 1 < nat Nx \<longrightarrow> x_2d ?s ! (i + 1) - x_2d ?s ! i = Lx / (of_int Nx - 1)"
    using linspace_step[of _ "nat Nx" Lx] by (simp add: f rn)
  have stepy: "\<forall>j. j + 1 < nat Ny \<longrightarrow> y_2d ?s ! (j + 1) - y_2d ?s ! j = Ly / (of_int Ny - 1)"
    using linspace_step[of _ "nat Ny" Ly] by (simp add: f rn)
  have gapx: "dx_2d ?s < Lx / (of_int Nx - 1)"
    using spacing_gap[OF L(1) n2(1)] by (simp add: f rn)
  have gapy: "dy_2d ?s < Ly / (of_int Ny - 1)"
    using spacing_gap[OF L(2) n2(2)] by (simp add: f rn)
  show ?thesis
    using run stepx stepy gapx gapy f(3,4,5)
    by (intro exI[of _ ?s]) (simp add: f(1,2) length_linspace)
qed

text \<open>
  C10. For \<open>L > 0\<close> and \<open>Nx \<ge> 2\<close> the coordinate array \<open>x = linspace(0, L, Nx)\<close> built
  by the constructor has the point-to-point spacing \<open>L / (Nx - 1)\<close>, strictly greater than
  the derived \<open>dx = L / Nx\<close> that the timestep \<open>dt = dt_factor dx / c\<close> and the FFT
  wavenumbers (whose fundamental is \<open>2 \<pi> / (Nx dx)\<close>) use, and that the stencil
  \<open>stencil_1d\<close> divides by; likewise for \<open>x\<close>, \<open>y\<close>, \<open>dx\<close> and \<open>dy\<close> in 2D.
\<close>

theorem coordinate_spacing_exceeds_dx:
  assumes "0 < Lx" "0 < Ly" "2 \<le> Nx" "2 \<le> Ny" "c \<noteq> 0"
  shows "(\<exists>s k. init_1d Lx Nx c omega0 dt_factor pulse_width = Inr s \<and>
           length (x_1d s) = nat Nx \<and>
           (\<forall>i. i + 1 < nat Nx \<longrightarrow> x_1d s ! (i + 1) - x_1d s ! i = Lx / (of_int Nx - 1)) \<and>
           dx_1d s = Lx / of_int Nx \<and>
           dx_1d s < Lx / (of_int Nx - 1) \<and>
           dt_1d s = dt_factor * dx_1d s / c \<and>
           wavenumbers_1d s = Inr k \<and> \<bar>k ! 1\<bar> = 2 * pi / (of_int Nx * dx_1d s)) \<and>
         (\<exists>s. init_2d Lx Ly Nx Ny c omega0 dt_factor = Inr s \<and>
           length (x_2d s) = nat Nx \<and> length (y_2d s) = nat Ny \<and>
           (\<forall>i. i + 1 < nat Nx \<longrightarrow> x_2d s ! (i + 1) - x_2d s ! i = Lx / (of_int Nx - 1)) \<and>
           (\<forall>j. j + 1 < nat Ny \<longrightarrow> y_2d s ! (j + 1) - y_2d s ! j = Ly / (of_int Ny - 1)) \<and>
           dx_2d s = Lx / of_int Nx \<and> dx_2d s < Lx / (of_int Nx - 1) \<and>
           dy_2d s = Ly / of_int Ny \<and> dy_2d s < Ly / (of_int Ny - 1) \<and>
           dt_2d s = dt_factor * min (dx_2d s) (dy_2d s) / c)"
  using init_1d_spacing[OF assms(1,3,5)] init_2d_spacing[OF assms] by simp

text \<open>
  The default 1D grid, \<open>L = 10\<close> and \<open>Nx = 400\<close>: neighbouring coordinates are \<open>10/399\<close>
  apart while \<open>dx = 10/400\<close>; along \<open>y\<close>, with \<open>Ly = 20\<close> and \<open>Ny = 200\<close>, they are \<open>20/199\<close> apart while \<open>dy = 20/200\<close>.
\<close>

theorem coordinate_spacing_exceeds_dx_witness:
  "x_1d (projr (init_1d 10 400 1 2 (9/10) (1/10))) ! 1 - x_1d (projr (init_1d 10 400 1 2 (9/10) (1/10))) ! 0 = 10 / 399 \<and>
   dx_1d (projr (init_1d 10 400 1 2 (9/10) (1/10))) = 10 / 400 \<and>
   y_2d (projr (init_2d 10 20 400 200 1 2 (9/10))) ! 1 - y_2d (projr (init_2d 10 20 400 200 1 2 (9/10))) ! 0 = 20 / 199 \<and>
   dy_2d (projr (init_2d 10 20 400 200 1 2 (9/10))) = 20 / 200"
proof -
  have h: "(0::real) < 10" "(0::real) < 20" "(2::int) \<le> 400" "(2::int) \<le> 200" "(1::real) \<noteq> 0"
    by simp_all
  from coordinate_spacing_exceeds_dx[OF h, of 2 "9/10" "1/10"]
  obtain s s2 where
    a: "init_1d 10 400 1 2 (9/10) (1/10) = Inr s"
       "\<forall>i. i + 1 < nat 400 \<longrightarrow> x_1d s ! (i + 1) - x_1d s ! i = 10 / (of_int 400 - 1)"
       "dx_1d s = 10 / of_int 400" and
    b: "init_2d 10 20 400 200 1 2 (9/10) = Inr s2"
       "\<forall>j. j + 1 < nat 200 \<longrightarrow> y_2d s2 ! (j + 1) - y_2d s2 ! j = 20 / (of_int 200 - 1)"
       "dy_2d s2 = 20 / of_int 200"
    by blast
  have "x_1d s ! 1 - x_1d s ! 0 = 10 / 399" using a(2)[rule_format, of 0] by simp
  moreover have "y_2d s2 ! 1 - y_2d s2 ! 0 = 20 / 199" using b(2)[rule_format, of 0] by simp
  ultimately show ?thesis using a(1,3) b(1,3) by simp
qed

section \<open>The CFL stability scan\<close>

lemma below_inv_sqrt2:
  fixes f :: real
  assumes "0 \<le> f"
  shows "(f < 1 / sqrt 2) = (2 * f\<^sup>2 < 1)"
proof -
  have "(f < 1 / sqrt 2) = (f * sqrt 2 < 1)"
    by (simp add: pos_less_divide_eq)
  also have "\<dots> = ((f * sqrt 2)\<^sup>2 < 1\<^sup>2)"
  proof -
    have "0 \<le> f * sqrt 2" using assms by simp
    then have "\<bar>f * sqrt 2\<bar> = f * sqrt 2" by simp
    then show ?thesis using abs_square_less_1[of "f * sqrt 2"] by simp
  qed
  finally show ?thesis by (simp add: power_mult_distrib mult.commute)
qed

lemma dt_factors_values:
  "dt_factors = [1/10, 2/10, 3/10, 4/10, 5/10, 6/10, 7/10, 8/10, 9/10, 10/10,
                 11/10, 12/10, 13/10, 14/10, 15/10, 16/10, 17/10, 18/10, 19/10, 20/10]"
  by (simp add: dt_factors_def linspace_def upt_rec)

lemma stable_flag_nonneg:
  "0 \<le> f \<Longrightarrow> stable_flag f = (if 2 * f\<^sup>2 < 1 then 1 else 0)"
  by (simp add: stable_flag_def below_inv_sqrt2)

lemma stability_values:
  "stability = [1, 1, 1, 1, 1, 1, 1, 0, 0, 0, 0, 0, 0, 0, 0, 0, 0, 0, 0, 0]"
  by (simp add: stability_def dt_factors_values stable_flag_nonneg power2_eq_square)

text \<open>
  C6. The flag of a CFL factor \<open>f\<close> is 1 (stable) exactly when \<open>f < 1/\<surd>2\<close> and 0
  (unstable) exactly when \<open>f \<ge> 1/\<surd>2\<close>: a comparison with the fixed limit and nothing
  else. The boundary value \<open>1/\<surd>2\<close> itself is flagged unstable, the comparison being
  strict. The scan of \<open>analyze_stability\<close> applies the flag to each of its twenty factors
  \<open>0.1, 0.2, ..., 2.0\<close>: the first seven are stable, the others are not.
\<close>

theorem stable_flag_threshold:
  "(stable_flag f = 1) = (f < 1 / sqrt 2) \<and>
   (stable_flag f = 0) = (1 / sqrt 2 \<le> f) \<and>
   stable_flag (1 / sqrt 2) = 0 \<and>
   stability = map stable_flag dt_factors \<and>
   stability = [1, 1, 1, 1, 1, 1, 1, 0, 0, 0, 0, 0, 0, 0, 0, 0, 0, 0, 0, 0]"
proof -
  have "stability = map stable_flag dt_factors" by (simp add: stability_def)
  moreover have "(stable_flag f = 1) = (f < 1 / sqrt 2)"
    "(stable_flag f = 0) = (1 / sqrt 2 \<le> f)" "stable_flag (1 / sqrt 2) = 0"
    by (simp_all add: stable_flag_def not_less)
  ultimately show ?thesis using stability_values by simp
qed

text \<open>The factor \<open>0.7\<close> lies below the limit, \<open>2 \<sqdot> 0.49 < 1\<close>, and is flagged stable.\<close>

theorem stable_flag_threshold_witness: "stable_flag (7/10) = 1"
  using stable_flag_threshold[of "7/10"] below_inv_sqrt2[of "7/10"]
  by (simp add: power2_eq_square)

section \<open>The decay fit of the amplitude panel\<close>

lemma amplitude_fit_failed:
  assumes "amp = [] \<or> time = [] \<or> fit time amp (amp ! 0, last time / 2, last amp) = None"
  shows "amplitude_fit fit time amp = [Plot time amp ''b-'' Simulation]"
  using assms by (auto simp: amplitude_fit_def try_fit_def)

lemma amplitude_fit_converged:
  assumes "amp \<noteq> []" "time \<noteq> []"
    and "fit time amp (amp ! 0, last time / 2, last amp) = Some (A, tau, offset)"
  shows "amplitude_fit fit time amp =
           [Plot time amp ''b.'' Simulation,
            Plot time (map (\<lambda>t. exp_decay t A tau offset) time) ''r-'' (Fit tau)]"
  using assms by (simp add: amplitude_fit_def try_fit_def)

lemma amplitude_series_lengths:
  "amplitude_series data = Some (time, amp) \<Longrightarrow> length time = length amp"
  by (auto simp: amplitude_series_def Let_def split: option.splits amplitude_entry.splits)

text \<open>
  C7, as the code has it. When the fit of \<open>A exp(-t/\<tau>) + offset\<close> fails (the fit raises, or
  the series is empty and reading the start values raises), the analyzer catches the
  exception itself and draws the raw series alone, as one solid line, in place of the
  dotted series with the fitted curve labelled with \<open>\<tau>\<close>. The call returns its figure
  as it does after a converged fit: no exception reaches the caller and no status is
  returned, so the failure shows only in what has been drawn; no value of \<open>\<tau>\<close> is made up.
\<close>

theorem fit_failure_is_caught_and_drawn_raw:
  "\<exists>fig. analyze_stability fit data = Inr fig \<and>
     cfl_axes fig = (dt_factors, stability) \<and>
     (amplitude_series data = None \<longrightarrow> amplitude_axes fig = []) \<and>
     (\<forall>time amp. amplitude_series data = Some (time, amp) \<longrightarrow>
        length time = length amp \<and>
        (amp = [] \<or> fit time amp (amp ! 0, last time / 2, last amp) = None \<longrightarrow>
           amplitude_axes fig = [Plot time amp ''b-'' Simulation]) \<and>
        (\<forall>A tau offset.
           amp \<noteq> [] \<and> fit time amp (amp ! 0, last time / 2, last amp) = Some (A, tau, offset) \<longrightarrow>
           amplitude_axes fig =
             [Plot time amp ''b.'' Simulation,
              Plot time (map (\<lambda>t. exp_decay t A tau offset) time) ''r-'' (Fit tau)]))"
proof -
  let ?fig = "\<lparr> cfl_axes = (dt_factors, stability), amplitude_axes = amplitude_panel fit data \<rparr>"
  have run: "analyze_stability fit data = Inr ?fig" by (simp add: analyze_stability_def)
  have none: "amplitude_axes ?fig = []" if "amplitude_series data = None"
    using that by (simp add: amplitude_panel_def)
  have some: "length time = length amp \<and>
        (amp = [] \<or> fit time amp (amp ! 0, last time / 2, last amp) = None \<longrightarrow>
           amplitude_axes ?fig = [Plot time amp ''b-'' Simulation]) \<and>
        (\<forall>A tau offset.
           amp \<noteq> [] \<and> fit time amp (amp ! 0, last time / 2, last amp) = Some (A, tau, offset) \<longrightarrow>
           amplitude_axes ?fig =
             [Plot time amp ''b.'' Simulation,
              Plot time (map (\<lambda>t. exp_decay t A tau offset) time) ''r-'' (Fit tau)])"
    if ser: "amplitude_series data = Some (time, amp)" for time amp
  proof -
    have len: "length time = length amp" using ser by (rule amplitude_series_lengths)
    have ax: "amplitude_panel fit data = amplitude_fit fit time amp"
      using ser by (simp add: amplitude_panel_def)
    have "amplitude_axes ?fig = [Plot time amp ''b-'' Simulation]"
      if "amp = [] \<or> fit time amp (amp ! 0, last time / 2, last amp) = None"
      using that amplitude_fit_failed[of amp time fit] by (auto simp: ax)
    moreover have "amplitude_axes ?fig =
             [Plot time amp ''b.'' Simulation,
              Plot time (map (\<lambda>t. exp_decay t A tau offset) time) ''r-'' (Fit tau)]"
      if "amp \<noteq> [] \<and> fit time amp (amp ! 0, last time / 2, last amp) = Some (A, tau, offset)"
      for A tau offset
    proof -
      have "time \<noteq> []" using that len by auto
      then show ?thesis using that amplitude_fit_converged[of amp time fit A tau offset] by (simp add: ax)
    qed
    ultimately show ?thesis using len by blast
  qed
  show ?thesis
  proof (intro exI[of _ ?fig] conjI)
    show "analyze_stability fit data = Inr ?fig" by (rule run)
    show "cfl_axes ?fig = (dt_factors, stability)" by simp
    show "amplitude_series data = None \<longrightarrow> amplitude_axes ?fig = []"
      using none by blast
    show "\<forall>time amp. amplitude_series data = Some (time, amp) \<longrightarrow>
        length time = length amp \<and>
        (amp = [] \<or> fit time amp (amp ! 0, last time / 2, last amp) = None \<longrightarrow>
           amplitude_axes ?fig = [Plot time amp ''b-'' Simulation]) \<and>
        (\<forall>A tau offset.
           amp \<noteq> [] \<and> fit time amp (amp ! 0, last time / 2, last amp) = Some (A, tau, offset) \<longrightarrow>
           amplitude_axes ?fig =
             [Plot time amp ''b.'' Simulation,
              Plot time (map (\<lambda>t. exp_decay t A tau offset) time) ''r-'' (Fit tau)])"
      using some by blast
  qed
qed

text \<open>
  The series \<open>[1, 1, 1]\<close> with the default \<open>dt = 0.01\<close>: with a fit that always raises
  the amplitude panel is the raw series, and with a fit that returns its start values
  \<open>(1, 0.01, 1)\<close> it is the dotted series and the curve for \<open>\<tau> = 0.01\<close>.
\<close>

theorem fit_failure_is_caught_and_drawn_raw_witness:
  "amplitude_axes (projr (analyze_stability (\<lambda>time amp p0. None)
       \<lparr> data_max_amplitude = Some (Series [1, 1, 1]), data_dt = None \<rparr>)) =
     [Plot [0, 1/100, 2/100] [1, 1, 1] ''b-'' Simulation] \<and>
   amplitude_axes (projr (analyze_stability (\<lambda>time amp p0. Some p0)
       \<lparr> data_max_amplitude = Some (Series [1, 1, 1]), data_dt = None \<rparr>)) =
     [Plot [0, 1/100, 2/100] [1, 1, 1] ''b.'' Simulation,
      Plot [0, 1/100, 2/100] (map (\<lambda>t. exp_decay t 1 (1/100) 1) [0, 1/100, 2/100]) ''r-''
        (Fit (1/100))]"
proof -
  let ?time = "[0, 1/100, 2/100] :: real list" and ?amp = "[1, 1, 1] :: real list"
  let ?fail = "(\<lambda>time amp p0. None) :: curve_fit" and ?ok = "(\<lambda>time amp p0. Some p0) :: curve_fit"
  let ?data = "\<lparr> data_max_amplitude = Some (Series ?amp), data_dt = None \<rparr>"
  have ser: "amplitude_series ?data = Some (?time, ?amp)"
    by (simp add: amplitude_series_def upt_rec)
  from fit_failure_is_caught_and_drawn_raw[of ?fail ?data] obtain f1 where
    f1: "analyze_stability ?fail ?data = Inr f1"
        "\<forall>time amp. amplitude_series ?data = Some (time, amp) \<longrightarrow>
           length time = length amp \<and>
           (amp = [] \<or> ?fail time amp (amp ! 0, last time / 2, last amp) = None \<longrightarrow>
              amplitude_axes f1 = [Plot time amp ''b-'' Simulation]) \<and>
           (\<forall>A tau offset.
              amp \<noteq> [] \<and> ?fail time amp (amp ! 0, last time / 2, last amp) = Some (A, tau, offset) \<longrightarrow>
              amplitude_axes f1 =
                [Plot time amp ''b.'' Simulation,
                 Plot time (map (\<lambda>t. exp_decay t A tau offset) time) ''r-'' (Fit tau)])"
    by blast
  from fit_failure_is_caught_and_drawn_raw[of ?ok ?data] obtain f2 where
    f2: "analyze_stability ?ok ?data = Inr f2"
        "\<forall>time amp. amplitude_series ?data = Some (time, amp) \<longrightarrow>
           length time = length amp \<and>
           (amp = [] \<or> ?ok time amp (amp ! 0, last time / 2, last amp) = None \<longrightarrow>
              amplitude_axes f2 = [Plot time amp ''b-'' Simulation]) \<and>
           (\<forall>A tau offset.
              amp \<noteq> [] \<and> ?ok time amp (amp ! 0, last time / 2, last amp) = Some (A, tau, offset) \<longrightarrow>
              amplitude_axes f2 =
                [Plot time amp ''b.'' Simulation,
                 Plot time (map (\<lambda>t. exp_decay t A tau offset) time) ''r-'' (Fit tau)])"
    by blast
  have a: "amplitude_axes f1 = [Plot ?time ?amp ''b-'' Simulation]"
    using f1(2)[rule_format, OF ser] by simp
  have b: "amplitude_axes f2 =
     [Plot ?time ?amp ''b.'' Simulation,
      Plot ?time (map (\<lambda>t. exp_decay t 1 (1/100) 1) ?time) ''r-'' (Fit (1/100))]"
    using f2(2)[rule_format, OF ser, THEN conjunct2, THEN conjunct2, rule_format, of 1 "1/100" 1]
    by simp
  show ?thesis using a b f1(1) f2(1) by simp
qed

text \<open>
  C7 as stated fails. With a fit that always raises, the call on the series \<open>[1, 1, 1]\<close>
  is \<open>Inr\<close> of a figure, exactly as the call with a fit that converges: the failure is
  not an outcome of the call that the caller receives. The analyzer has drawn the raw
  series on its own, where the specification leaves that fallback to the caller.
\<close>

theorem fit_failure_is_not_reported:
  "analyze_stability (\<lambda>time amp p0. None)
       \<lparr> data_max_amplitude = Some (Series [1, 1, 1]), data_dt = None \<rparr> =
     Inr \<lparr> cfl_axes = (dt_factors, stability),
           amplitude_axes = [Plot [0, 1/100, 2/100] [1, 1, 1] ''b-'' Simulation] \<rparr> \<and>
   \<not> isl (analyze_stability (\<lambda>time amp p0. None)
       \<lparr> data_max_amplitude = Some (Series [1, 1, 1]), data_dt = None \<rparr>) \<and>
   \<not> isl (analyze_stability (\<lambda>time amp p0. Some p0)
       \<lparr> data_max_amplitude = Some (Series [1, 1, 1]), data_dt = None \<rparr>)"
  by (simp add: analyze_stability_def amplitude_panel_def amplitude_series_def
        amplitude_fit_def try_fit_def upt_rec)

section \<open>Runs of the 1D solver\<close>

text \<open>
  What an instance already holds in its result lists does not enter a run: the run of a
  preloaded instance is the run of the instance itself, with the same lists in front.
\<close>

lemma Nx_1d_preload: "Nx_1d (preload_1d h t a s) = Nx_1d s"
  by (simp add: preload_1d_def)

lemma stencil_1d_preload:
  "stencil_1d (preload_1d h t a s) phi pp i = stencil_1d s phi pp i"
  by (simp add: stencil_1d_def preload_1d_def)

lemma interior_1d_preload:
  "interior_1d (preload_1d h t a s) phi pp = interior_1d s phi pp"
  by (simp add: interior_1d_def stencil_1d_preload Nx_1d_preload)

lemma advance_1d_preload [simp]:
  "advance_1d (preload_1d h t a s) phi pp = advance_1d s phi pp"
  unfolding advance_1d_def by (simp only: interior_1d_preload Nx_1d_preload)

lemma gaussian_pulse_preload [simp]:
  "gaussian_pulse (preload_1d h t a s) = gaussian_pulse s"
  by (simp add: gaussian_pulse_def preload_1d_def)

lemma step_1d_preload:
  "step_1d se k (preload_1d h t a s, phi, pp) =
     map_sum id (\<lambda>(s', phi', pp'). (preload_1d h t a s', phi', pp')) (step_1d se k (s, phi, pp))"
  by (simp add: step_1d_def Let_def split: sum.splits) (simp add: preload_1d_def)

lemma loop_1d_preload:
  "loop_1d se ts (preload_1d h t a s, phi, pp) =
     map_sum id (\<lambda>(s', phi', pp'). (preload_1d h t a s', phi', pp')) (loop_1d se ts (s, phi, pp))"
proof (induction ts arbitrary: s phi pp)
  case Nil
  show ?case by simp
next
  case (Cons k ts)
  show ?case
  proof (cases "step_1d se k (s, phi, pp)")
    case (Inl e)
    then show ?thesis by (simp add: step_1d_preload)
  next
    case (Inr st)
    obtain s1 phi1 pp1 where st: "st = (s1, phi1, pp1)" by (cases st) auto
    show ?thesis using Inr by (simp add: step_1d_preload st Cons.IH)
  qed
qed

lemma start_1d_preload:
  "start_1d (preload_1d h t a s) =
     map_sum id (\<lambda>(s', phi', pp'). (preload_1d h t a s', phi', pp')) (start_1d s)"
  by (simp add: start_1d_def Let_def split: sum.splits) (simp add: preload_1d_def)

lemma simulate_1d_preload:
  "simulate_1d Nt se (preload_1d h t a s) = map_sum id (preload_1d h t a) (simulate_1d Nt se s)"
proof (cases "start_1d s")
  case (Inl e)
  then show ?thesis by (simp add: simulate_1d_def start_1d_preload)
next
  case (Inr st)
  obtain s0 phi pp where st: "st = (s0, phi, pp)" by (cases st) auto
  show ?thesis
    using Inr by (auto simp add: simulate_1d_def start_1d_preload st loop_1d_preload split: sum.splits)
qed

lemma preload_fresh_1d:
  "preload_1d (phi_history_1d s) (time_points_1d s) (max_amplitude_1d s) (fresh_1d s) = s"
  by (simp add: preload_1d_def fresh_1d_def)

text \<open>
  Shapes and termination: on an instance with the constructor's shape both buffers keep
  \<open>Nx\<close> cells, so no index is out of range, and the run over the reals returns unless
  \<open>save_every = 0\<close>.
\<close>

lemma length_gaussian_pulse: "length (gaussian_pulse s) = length (x_1d s)"
  by (simp add: gaussian_pulse_def)

lemma amax_abs_Inr: "phi \<noteq> [] \<Longrightarrow> \<exists>m. amax_abs phi = Inr m"
  by (cases phi) (simp_all add: amax_abs_def)

lemma advance_1d_length:
  "advance_1d s phi pp = Inr nxt \<Longrightarrow> length nxt = length phi"
  by (auto simp: advance_1d_def Let_def length_interior_1d split: if_splits)

lemma advance_1d_boundary:
  assumes "advance_1d s phi pp = Inr nxt"
  shows "boundary_zero_1d nxt"
proof -
  let ?m = "interior_1d s phi pp"
  have ne: "phi \<noteq> []" and nxt: "nxt = ?m[0 := 0, length ?m - 1 := 0]"
    using assms by (auto simp: advance_1d_def Let_def split: if_splits)
  have len: "length ?m = length phi" by (rule length_interior_1d)
  have pos: "0 < length phi" using ne by simp
  have nn: "nxt \<noteq> []" and ln: "length nxt = length phi" using nxt len ne by auto
  have "nxt ! 0 = 0" using pos len by (simp add: nxt nth_list_update)
  then have "hd nxt = 0" using nn by (simp add: hd_conv_nth)
  moreover have "nxt ! (length nxt - 1) = 0" using pos len by (simp add: nxt)
  then have "last nxt = 0" using nn by (simp add: last_conv_nth)
  ultimately show ?thesis using nn by (simp add: boundary_zero_1d_def)
qed

text \<open>One pass of the loop: what it leaves in the buffers and what it appends.\<close>

lemma step_1d_Inr:
  assumes "step_1d se k (s, phi, pp) = Inr (s', phi', pp')"
  shows "advance_1d s phi pp = Inr phi'" and "pp' = phi" and "fresh_1d s' = fresh_1d s"
    and "\<exists>H. phi_history_1d s' = phi_history_1d s @ H \<and> set H \<subseteq> {phi'}"
    and "\<exists>m. max_amplitude_1d s' = max_amplitude_1d s @ [m]"
  using assms
  by (auto simp: step_1d_def Let_def fresh_1d_def split: sum.splits if_splits)

lemma step_1d_total:
  assumes "grid_ok_1d s" "length phi = nat (Nx_1d s)" "length pp = nat (Nx_1d s)" "se \<noteq> 0"
  shows "\<exists>st. step_1d se k (s, phi, pp) = Inr st"
proof -
  have N: "1 \<le> Nx_1d s" using assms(1) by (simp add: grid_ok_1d_def)
  from advance_1d_Inr[OF assms(2,3) N]
  obtain nxt where a: "advance_1d s phi pp = Inr nxt" by blast
  have "length nxt = nat (Nx_1d s)" using advance_1d_length[OF a] assms(2) by simp
  then have "nxt \<noteq> []" using N by auto
  then obtain m where "amax_abs nxt = Inr m" using amax_abs_Inr by blast
  then show ?thesis using a assms(4) by (simp add: step_1d_def Let_def)
qed

lemma grid_ok_1d_fresh: "fresh_1d s' = fresh_1d s \<Longrightarrow> grid_ok_1d s' = grid_ok_1d s"
  "fresh_1d s' = fresh_1d s \<Longrightarrow> Nx_1d s' = Nx_1d s"
proof -
  assume "fresh_1d s' = fresh_1d s"
  then have "Nx_1d (fresh_1d s') = Nx_1d (fresh_1d s)" "x_1d (fresh_1d s') = x_1d (fresh_1d s)"
    by simp_all
  then have e: "Nx_1d s' = Nx_1d s" "x_1d s' = x_1d s" by (simp_all add: fresh_1d_def)
  show "grid_ok_1d s' = grid_ok_1d s" by (simp add: grid_ok_1d_def e)
  show "Nx_1d s' = Nx_1d s" by (rule e)
qed

lemma loop_1d_total:
  assumes "grid_ok_1d s" "length phi = nat (Nx_1d s)" "length pp = nat (Nx_1d s)" "se \<noteq> 0"
  shows "\<exists>st. loop_1d se ts (s, phi, pp) = Inr st"
  using assms
proof (induction ts arbitrary: s phi pp)
  case Nil
  show ?case by simp
next
  case (Cons k ts)
  from step_1d_total[OF Cons.prems, of k]
  obtain s1 phi1 pp1 where st: "step_1d se k (s, phi, pp) = Inr (s1, phi1, pp1)"
    by (metis prod_cases3)
  note f = step_1d_Inr[OF st]
  have "grid_ok_1d s1" "Nx_1d s1 = Nx_1d s"
    using grid_ok_1d_fresh[OF f(3)] Cons.prems(1) by simp_all
  moreover have "length phi1 = nat (Nx_1d s)"
    using advance_1d_length[OF f(1)] Cons.prems(2) by simp
  moreover have "length pp1 = nat (Nx_1d s)" using f(2) Cons.prems(2) by simp
  ultimately have "\<exists>st. loop_1d se ts (s1, phi1, pp1) = Inr st"
    using Cons.prems(4) by (intro Cons.IH) simp_all
  then show ?case using st by simp
qed

lemma loop_1d_boundary:
  assumes "loop_1d se ts (s, phi, pp) = Inr (s', phi', pp')"
  shows "(ts \<noteq> [] \<longrightarrow> boundary_zero_1d phi') \<and>
         (\<exists>H. phi_history_1d s' = phi_history_1d s @ H \<and> list_all boundary_zero_1d H)"
  using assms
proof (induction ts arbitrary: s phi pp)
  case Nil
  then show ?case by simp
next
  case (Cons k ts)
  from Cons.prems obtain s1 phi1 pp1 where
    st: "step_1d se k (s, phi, pp) = Inr (s1, phi1, pp1)"
    and rest: "loop_1d se ts (s1, phi1, pp1) = Inr (s', phi', pp')"
    by (auto split: sum.splits)
  note f = step_1d_Inr[OF st]
  have b1: "boundary_zero_1d phi1" using advance_1d_boundary[OF f(1)] .
  from f(4) obtain H1 where H1: "phi_history_1d s1 = phi_history_1d s @ H1" "set H1 \<subseteq> {phi1}"
    by blast
  have H1z: "list_all boundary_zero_1d H1" using H1(2) b1 by (auto simp: list_all_iff)
  from Cons.IH[OF rest] obtain H2 where
    H2: "phi_history_1d s' = phi_history_1d s1 @ H2" "list_all boundary_zero_1d H2"
    and last: "ts \<noteq> [] \<longrightarrow> boundary_zero_1d phi'"
    by blast
  have "boundary_zero_1d phi'"
  proof (cases ts)
    case Nil
    then show ?thesis using rest b1 by simp
  next
    case Cons
    then show ?thesis using last by simp
  qed
  moreover have "phi_history_1d s' = phi_history_1d s @ (H1 @ H2)" using H1(1) H2(1) by simp
  moreover have "list_all boundary_zero_1d (H1 @ H2)" using H1z H2(2) by simp
  ultimately show ?case by blast
qed

lemma start_1d_Inr:
  assumes "start_1d s = Inr (s0, phi, pp)"
  shows "phi = gaussian_pulse s" "pp = gaussian_pulse s" "fresh_1d s0 = fresh_1d s"
    "phi_history_1d s0 = phi_history_1d s @ [gaussian_pulse s]"
  using assms by (auto simp: start_1d_def Let_def fresh_1d_def split: sum.splits)

lemma start_1d_total:
  assumes "grid_ok_1d s"
  shows "\<exists>s0. start_1d s = Inr (s0, gaussian_pulse s, gaussian_pulse s)"
proof -
  have "gaussian_pulse s \<noteq> []"
    using assms by (auto simp: grid_ok_1d_def gaussian_pulse_def)
  then obtain m where "amax_abs (gaussian_pulse s) = Inr m" using amax_abs_Inr by blast
  then show ?thesis by (simp add: start_1d_def Let_def)
qed

lemma simulate_1d_total:
  assumes "grid_ok_1d s" "se \<noteq> 0"
  shows "\<exists>s'. simulate_1d Nt se s = Inr s'"
proof -
  from start_1d_total[OF assms(1)] obtain s0 where
    s0: "start_1d s = Inr (s0, gaussian_pulse s, gaussian_pulse s)" by blast
  note f = start_1d_Inr[OF s0]
  have g: "grid_ok_1d s0" "Nx_1d s0 = Nx_1d s" using grid_ok_1d_fresh[OF f(3)] assms(1) by simp_all
  have len: "length (gaussian_pulse s) = nat (Nx_1d s0)"
    using assms(1) g(2) by (simp add: length_gaussian_pulse grid_ok_1d_def)
  from loop_1d_total[OF g(1) len len assms(2)]
  obtain st where "loop_1d se [1..Nt] (s0, gaussian_pulse s, gaussian_pulse s) = Inr st" by blast
  then show ?thesis using s0 by (simp add: simulate_1d_def)
qed

lemma simulate_1d_history:
  assumes "simulate_1d Nt se s = Inr s'"
  shows "\<exists>H. phi_history_1d s' = phi_history_1d s @ gaussian_pulse s # H \<and>
             list_all boundary_zero_1d H"
proof -
  from assms obtain s0 phi pp phi' pp' where
    s0: "start_1d s = Inr (s0, phi, pp)"
    and lp: "loop_1d se [1..Nt] (s0, phi, pp) = Inr (s', phi', pp')"
    by (auto simp: simulate_1d_def split: sum.splits)
  from loop_1d_boundary[OF lp] obtain H where
    "phi_history_1d s' = phi_history_1d s0 @ H" "list_all boundary_zero_1d H" by blast
  then show ?thesis using start_1d_Inr(4)[OF s0] by simp
qed

lemma init_1d_grid_ok:
  assumes "init_1d L Nx c omega0 dt_factor pw = Inr s"
  shows "grid_ok_1d s" "phi_history_1d s = []" "Nx_1d s = Nx" "L_1d s = L" "pulse_width_1d s = pw"
    "x_1d s = linspace 0 L (nat Nx)"
  using assms
  by (auto simp: init_1d_def grid_ok_1d_def length_linspace split: if_splits)

section \<open>Runs of the 2D solver\<close>

text \<open>Shapes of the generated fields and of the update, and its four cleared edges.\<close>

lemma ncols_shape: "has_shape nr nc m \<Longrightarrow> 0 < nr \<Longrightarrow> ncols m = nc"
  by (cases m) (auto simp: has_shape_def ncols_def)

lemma nrows_shape: "has_shape nr nc m \<Longrightarrow> nrows m = nr"
  by (simp add: has_shape_def nrows_def)

lemma has_shape_map2:
  assumes "has_shape nr nc a" "has_shape nr nc b"
  shows "has_shape nr nc (map2 (map2 f) a b)"
  using assms by (auto simp: has_shape_def list_all_iff elim!: in_set_zipE)

lemma has_shape_map: "has_shape nr nc a \<Longrightarrow> has_shape nr nc (map (map f) a)"
  by (auto simp: has_shape_def list_all_iff)

lemma has_shape_meshgrid:
  "has_shape (length y) (length x) (meshgrid_X x y)"
  "has_shape (length y) (length x) (meshgrid_Y x y)"
  by (auto simp: has_shape_def meshgrid_X_def meshgrid_Y_def list_all_iff)

lemma gaussian_pulse_2d_shape:
  assumes "grid_ok_2d s"
  shows "has_shape (nat (Ny_2d s)) (nat (Nx_2d s)) (gaussian_pulse_2d s center width amplitude)"
proof -
  have "has_shape (nat (Ny_2d s)) (nat (Nx_2d s)) (X_2d s)"
       "has_shape (nat (Ny_2d s)) (nat (Nx_2d s)) (Y_2d s)"
    using assms has_shape_meshgrid[of "y_2d s" "x_2d s"] by (simp_all add: grid_ok_2d_def)
  then show ?thesis
    unfolding gaussian_pulse_2d_def Let_def by (intro has_shape_map has_shape_map2)
qed

lemma ring_pulse_shape:
  assumes "grid_ok_2d s"
  shows "has_shape (nat (Ny_2d s)) (nat (Nx_2d s)) (ring_pulse s center radius width amplitude)"
proof -
  have "has_shape (nat (Ny_2d s)) (nat (Nx_2d s)) (X_2d s)"
       "has_shape (nat (Ny_2d s)) (nat (Nx_2d s)) (Y_2d s)"
    using assms has_shape_meshgrid[of "y_2d s" "x_2d s"] by (simp_all add: grid_ok_2d_def)
  then show ?thesis
    unfolding ring_pulse_def Let_def by (intro has_shape_map has_shape_map2)
qed

lemma update_2d_shape: "has_shape (nrows phi) (ncols phi) (update_2d s phi pp)"
  by (simp add: update_2d_def Let_def has_shape_def list_all_iff nrows_def)

lemma advance_2d_Inr:
  assumes "advance_2d s phi pp = Inr nxt"
  shows "0 < nrows phi" "0 < ncols phi"
    and "nxt = map (\<lambda>row. row[length row - 1 := 0]) (map (\<lambda>row. row[0 := 0])
               ((update_2d s phi pp)[0 := replicate (ncols phi) 0,
                                    nrows phi - 1 := replicate (ncols phi) 0]))"
  using assms update_2d_shape[of phi s pp]
  by (auto simp: advance_2d_def Let_def has_shape_def split: if_splits)

lemma advance_2d_shape:
  assumes "advance_2d s phi pp = Inr nxt"
  shows "has_shape (nrows phi) (ncols phi) nxt"
proof -
  note a = advance_2d_Inr[OF assms]
  have u: "has_shape (nrows phi) (ncols phi) (update_2d s phi pp)" by (rule update_2d_shape)
  show ?thesis
    unfolding a(3) using u
    by (auto simp: has_shape_def list_all_iff dest!: set_update_subset_insert[THEN subsetD])
qed

lemma advance_2d_total:
  assumes "0 < nrows phi" "0 < ncols phi"
  shows "\<exists>nxt. advance_2d s phi pp = Inr nxt"
  using assms by (simp add: advance_2d_def Let_def)

lemma advance_2d_boundary:
  assumes "advance_2d s phi pp = Inr nxt"
  shows "boundary_zero_2d nxt"
proof -
  note a = advance_2d_Inr[OF assms]
  let ?nr = "nrows phi" and ?nc = "ncols phi"
  let ?u = "(update_2d s phi pp)[0 := replicate ?nc 0, ?nr - 1 := replicate ?nc 0]"
  let ?g = "\<lambda>row::real list. (row[0 := 0])[length (row[0 := 0]) - 1 := 0]"
  have nxt: "nxt = map ?g ?u" by (simp add: a(3))
  have lu: "length ?u = ?nr" using update_2d_shape[of phi s pp] by (simp add: has_shape_def)
  have rows: "length row = ?nc" if "row \<in> set ?u" for row
    using that update_2d_shape[of phi s pp]
    by (auto simp: has_shape_def list_all_iff dest!: set_update_subset_insert[THEN subsetD])
  have zero: "?g (replicate ?nc 0) = replicate ?nc 0"
    by (simp add: list_eq_iff_nth_eq nth_list_update)
  have ne: "nxt \<noteq> []" using lu a(1) nxt by auto
  have first: "?u ! 0 = replicate ?nc 0"
    using a(1) lu by (cases "?nr - 1 = 0") (simp_all add: nth_list_update)
  have lastr: "?u ! (?nr - 1) = replicate ?nc 0"
    using a(1) lu by simp
  have "hd nxt = replicate ?nc 0"
    using ne a(1) lu first zero by (simp add: hd_conv_nth nxt del: length_list_update)
  moreover have "last nxt = replicate ?nc 0"
    using ne a(1) lu lastr zero by (simp add: last_conv_nth nxt del: length_list_update)
  moreover have "row \<noteq> [] \<and> hd row = 0 \<and> last row = 0" if "row \<in> set nxt" for row
  proof -
    from that obtain r where r: "r \<in> set ?u" "row = ?g r" by (auto simp: nxt)
    have lr: "length r = ?nc" using rows[OF r(1)] .
    have nr: "row \<noteq> []" using lr a(2) r(2) by auto
    have "row ! 0 = 0" using lr a(2) by (simp add: r(2) nth_list_update)
    then have "hd row = 0" using nr by (simp add: hd_conv_nth)
    moreover have "row ! (length row - 1) = 0" using lr a(2) by (simp add: r(2))
    then have "last row = 0" using nr by (simp add: last_conv_nth)
    ultimately show ?thesis using nr by simp
  qed
  ultimately show ?thesis using ne by (simp add: boundary_zero_2d_def list_all_iff)
qed

lemma compute_energy_total:
  assumes "2 \<le> nrows phi" "2 \<le> ncols phi"
  shows "\<exists>en. compute_energy s phi pp = Inr en"
  using assms by (simp add: compute_energy_def Let_def)

text \<open>
  As in 1D, the result lists an instance already holds do not enter a run; on a grid of at
  least two points each way the run over the reals returns unless \<open>save_every = 0\<close> or the
  name of the initial condition is unknown.
\<close>

lemma advance_2d_preload:
  "advance_2d (preload_2d h t e s) phi pp = advance_2d s phi pp"
proof -
  have "laplacian_2d (preload_2d h t e s) phi = laplacian_2d s phi"
    by (simp add: laplacian_2d_def preload_2d_def)
  then have "update_2d (preload_2d h t e s) phi pp = update_2d s phi pp"
    by (simp add: update_2d_def preload_2d_def)
  then show ?thesis unfolding advance_2d_def by simp
qed

lemma compute_energy_preload:
  "compute_energy (preload_2d h t e s) phi pp = compute_energy s phi pp"
  unfolding compute_energy_def by (simp add: preload_2d_def)

lemma initial_field_2d_preload:
  "initial_field_2d ty (preload_2d h t e s) = initial_field_2d ty s"
  by (simp add: initial_field_2d_def gaussian_pulse_2d_def ring_pulse_def preload_2d_def)

lemma step_2d_preload:
  "step_2d se k (preload_2d h t e s, phi, pp) =
     map_sum id (\<lambda>(s', phi', pp'). (preload_2d h t e s', phi', pp')) (step_2d se k (s, phi, pp))"
  by (simp add: step_2d_def advance_2d_preload compute_energy_preload split: sum.splits)
     (simp add: preload_2d_def)

lemma loop_2d_preload:
  "loop_2d se ts (preload_2d h t e s, phi, pp) =
     map_sum id (\<lambda>(s', phi', pp'). (preload_2d h t e s', phi', pp')) (loop_2d se ts (s, phi, pp))"
proof (induction ts arbitrary: s phi pp)
  case Nil
  show ?case by simp
next
  case (Cons k ts)
  show ?case
  proof (cases "step_2d se k (s, phi, pp)")
    case (Inl e)
    then show ?thesis by (simp add: step_2d_preload)
  next
    case (Inr st)
    obtain s1 phi1 pp1 where st: "st = (s1, phi1, pp1)" by (cases st) auto
    show ?thesis using Inr by (simp add: step_2d_preload st Cons.IH)
  qed
qed

lemma start_2d_preload:
  "start_2d ty (preload_2d h t e s) =
     map_sum id (\<lambda>(s', phi', pp'). (preload_2d h t e s', phi', pp')) (start_2d ty s)"
  by (simp add: start_2d_def Let_def initial_field_2d_preload compute_energy_preload
           split: sum.splits)
     (simp add: preload_2d_def)

lemma simulate_2d_preload:
  "simulate_2d Nt se ty (preload_2d h t e s) =
     map_sum id (preload_2d h t e) (simulate_2d Nt se ty s)"
proof (cases "start_2d ty s")
  case (Inl e)
  then show ?thesis by (simp add: simulate_2d_def start_2d_preload)
next
  case (Inr st)
  obtain s0 phi pp where st: "st = (s0, phi, pp)" by (cases st) auto
  show ?thesis
    using Inr by (auto simp add: simulate_2d_def start_2d_preload st loop_2d_preload split: sum.splits)
qed

lemma preload_fresh_2d:
  "preload_2d (phi_history_2d s) (time_points_2d s) (energy_history_2d s) (fresh_2d s) = s"
  by (simp add: preload_2d_def fresh_2d_def)

text \<open>One pass of the loop: what it leaves in the buffers and what it appends.\<close>

lemma step_2d_Inr:
  assumes "step_2d se k (s, phi, pp) = Inr (s', phi', pp')"
  shows "advance_2d s phi pp = Inr phi'" and "pp' = phi" and "fresh_2d s' = fresh_2d s"
    and "\<exists>H E. phi_history_2d s' = phi_history_2d s @ H \<and> set H \<subseteq> {phi'} \<and>
               energy_history_2d s' = energy_history_2d s @ E \<and> length E = length H \<and>
               time_points_2d s' = time_points_2d s @ map (\<lambda>_. of_int k * dt_2d s) H"
  using assms
  by (auto simp: step_2d_def Let_def fresh_2d_def split: sum.splits if_splits)

lemma fresh_2d_eq:
  assumes "fresh_2d s' = fresh_2d s"
  shows "grid_ok_2d s' = grid_ok_2d s" "Nx_2d s' = Nx_2d s" "Ny_2d s' = Ny_2d s"
proof -
  have "Nx_2d (fresh_2d s') = Nx_2d (fresh_2d s)" "Ny_2d (fresh_2d s') = Ny_2d (fresh_2d s)"
    "x_2d (fresh_2d s') = x_2d (fresh_2d s)" "y_2d (fresh_2d s') = y_2d (fresh_2d s)"
    "X_2d (fresh_2d s') = X_2d (fresh_2d s)" "Y_2d (fresh_2d s') = Y_2d (fresh_2d s)"
    using assms by simp_all
  then have e: "Nx_2d s' = Nx_2d s" "Ny_2d s' = Ny_2d s" "x_2d s' = x_2d s" "y_2d s' = y_2d s"
    "X_2d s' = X_2d s" "Y_2d s' = Y_2d s"
    by (simp_all add: fresh_2d_def)
  show "grid_ok_2d s' = grid_ok_2d s" by (simp add: grid_ok_2d_def e)
  show "Nx_2d s' = Nx_2d s" "Ny_2d s' = Ny_2d s" by (rule e)+
qed

lemma step_2d_total:
  assumes "has_shape nr nc phi" "2 \<le> nr" "2 \<le> nc" "se \<noteq> 0"
  shows "\<exists>s' phi'. step_2d se k (s, phi, pp) = Inr (s', phi', phi) \<and> has_shape nr nc phi'"
proof -
  have sh: "nrows phi = nr" "ncols phi = nc"
    using assms(1,2) by (simp_all add: nrows_shape ncols_shape)
  from advance_2d_total[of phi s pp] obtain nxt where a: "advance_2d s phi pp = Inr nxt"
    using sh assms(2,3) by auto
  have n: "has_shape nr nc nxt" using advance_2d_shape[OF a] sh by simp
  then have "nrows nxt = nr" "ncols nxt = nc"
    using assms(2) by (simp_all add: nrows_shape ncols_shape)
  then obtain en where "compute_energy s nxt phi = Inr en"
    using compute_energy_total[of nxt s phi] assms(2,3) by auto
  then show ?thesis using a n assms(4) by (simp add: step_2d_def)
qed

lemma loop_2d_total:
  assumes "has_shape nr nc phi" "2 \<le> nr" "2 \<le> nc" "se \<noteq> 0"
  shows "\<exists>st. loop_2d se ts (s, phi, pp) = Inr st"
  using assms(1)
proof (induction ts arbitrary: s phi pp)
  case Nil
  show ?case by simp
next
  case (Cons k ts)
  from step_2d_total[OF Cons.prems assms(2,3,4), of k s pp]
  obtain s1 phi1 where st: "step_2d se k (s, phi, pp) = Inr (s1, phi1, phi)"
    and sh: "has_shape nr nc phi1" by blast
  from Cons.IH[OF sh] show ?case using st by simp
qed

lemma loop_2d_boundary:
  assumes "loop_2d se ts (s, phi, pp) = Inr (s', phi', pp')"
  shows "(ts \<noteq> [] \<longrightarrow> boundary_zero_2d phi') \<and>
         (\<exists>H E. phi_history_2d s' = phi_history_2d s @ H \<and> list_all boundary_zero_2d H \<and>
                energy_history_2d s' = energy_history_2d s @ E \<and> length E = length H)"
  using assms
proof (induction ts arbitrary: s phi pp)
  case Nil
  then show ?case by simp
next
  case (Cons k ts)
  from Cons.prems obtain s1 phi1 pp1 where
    st: "step_2d se k (s, phi, pp) = Inr (s1, phi1, pp1)"
    and rest: "loop_2d se ts (s1, phi1, pp1) = Inr (s', phi', pp')"
    by (auto split: sum.splits)
  note f = step_2d_Inr[OF st]
  have b1: "boundary_zero_2d phi1" using advance_2d_boundary[OF f(1)] .
  from f(4) obtain H1 E1 where
    H1: "phi_history_2d s1 = phi_history_2d s @ H1" "set H1 \<subseteq> {phi1}"
        "energy_history_2d s1 = energy_history_2d s @ E1" "length E1 = length H1"
    by blast
  have H1z: "list_all boundary_zero_2d H1" using H1(2) b1 by (auto simp: list_all_iff)
  from Cons.IH[OF rest] obtain H2 E2 where
    H2: "phi_history_2d s' = phi_history_2d s1 @ H2" "list_all boundary_zero_2d H2"
        "energy_history_2d s' = energy_history_2d s1 @ E2" "length E2 = length H2"
    and last: "ts \<noteq> [] \<longrightarrow> boundary_zero_2d phi'"
    by blast
  have "boundary_zero_2d phi'"
  proof (cases ts)
    case Nil
    then show ?thesis using rest b1 by simp
  next
    case Cons
    then show ?thesis using last by simp
  qed
  moreover have "phi_history_2d s' = phi_history_2d s @ (H1 @ H2)" using H1(1) H2(1) by simp
  moreover have "list_all boundary_zero_2d (H1 @ H2)" using H1z H2(2) by simp
  moreover have "energy_history_2d s' = energy_history_2d s @ (E1 @ E2)" using H1(3) H2(3) by simp
  moreover have "length (E1 @ E2) = length (H1 @ H2)" using H1(4) H2(4) by simp
  ultimately show ?case by blast
qed

lemma start_2d_Inr:
  assumes "start_2d ty s = Inr (s0, phi, pp)"
  shows "initial_field_2d ty s = Inr phi" "pp = phi" "fresh_2d s0 = fresh_2d s"
    "phi_history_2d s0 = phi_history_2d s @ [phi]"
    "\<exists>en. energy_history_2d s0 = energy_history_2d s @ [en]"
    "time_points_2d s0 = time_points_2d s @ [0]"
  using assms by (auto simp: start_2d_def Let_def fresh_2d_def split: sum.splits)

lemma initial_field_2d_shape:
  assumes "grid_ok_2d s" "initial_field_2d ty s = Inr phi"
  shows "has_shape (nat (Ny_2d s)) (nat (Nx_2d s)) phi"
  using assms gaussian_pulse_2d_shape[OF assms(1)] ring_pulse_shape[OF assms(1)]
  by (auto simp: initial_field_2d_def split: if_splits)

lemma start_2d_total:
  assumes "grid_ok_2d s" "2 \<le> Nx_2d s" "2 \<le> Ny_2d s" "initial_field_2d ty s = Inr phi"
  shows "\<exists>s0. start_2d ty s = Inr (s0, phi, phi)"
proof -
  have sh: "has_shape (nat (Ny_2d s)) (nat (Nx_2d s)) phi"
    using initial_field_2d_shape[OF assms(1,4)] .
  have n2: "2 \<le> nat (Ny_2d s)" "2 \<le> nat (Nx_2d s)" using assms(2,3) by simp_all
  have "nrows phi = nat (Ny_2d s)" "ncols phi = nat (Nx_2d s)"
    using sh n2 by (simp_all add: nrows_shape ncols_shape)
  then obtain en where "compute_energy s phi phi = Inr en"
    using compute_energy_total[of phi s phi] n2 by auto
  then show ?thesis using assms(4) by (simp add: start_2d_def Let_def)
qed

lemma simulate_2d_total:
  assumes "grid_ok_2d s" "2 \<le> Nx_2d s" "2 \<le> Ny_2d s" "se \<noteq> 0"
    and "ty = ''gaussian'' \<or> ty = ''ring''"
  shows "\<exists>s'. simulate_2d Nt se ty s = Inr s'"
proof -
  from assms(5) obtain phi where phi: "initial_field_2d ty s = Inr phi"
    by (auto simp: initial_field_2d_def)
  from start_2d_total[OF assms(1,2,3) phi] obtain s0 where
    s0: "start_2d ty s = Inr (s0, phi, phi)" by blast
  have sh: "has_shape (nat (Ny_2d s)) (nat (Nx_2d s)) phi"
    using initial_field_2d_shape[OF assms(1) phi] .
  have "\<exists>st. loop_2d se [1..Nt] (s0, phi, phi) = Inr st"
    using assms(2,3,4) by (intro loop_2d_total[OF sh]) simp_all
  then show ?thesis using s0 by (auto simp add: simulate_2d_def)
qed

lemma simulate_2d_history:
  assumes "simulate_2d Nt se ty s = Inr s'"
  shows "\<exists>phi0 H E. initial_field_2d ty s = Inr phi0 \<and>
           phi_history_2d s' = phi_history_2d s @ phi0 # H \<and> list_all boundary_zero_2d H \<and>
           energy_history_2d s' = energy_history_2d s @ E \<and> length E = Suc (length H)"
proof -
  from assms obtain s0 phi pp phi' pp' where
    s0: "start_2d ty s = Inr (s0, phi, pp)"
    and lp: "loop_2d se [1..Nt] (s0, phi, pp) = Inr (s', phi', pp')"
    by (auto simp: simulate_2d_def split: sum.splits)
  note f = start_2d_Inr[OF s0]
  from f(5) obtain en where en: "energy_history_2d s0 = energy_history_2d s @ [en]" by blast
  from loop_2d_boundary[OF lp] obtain H E where
    "phi_history_2d s' = phi_history_2d s0 @ H" "list_all boundary_zero_2d H"
    "energy_history_2d s' = energy_history_2d s0 @ E" "length E = length H" by blast
  then have "phi_history_2d s' = phi_history_2d s @ phi # H \<and> list_all boundary_zero_2d H \<and>
      energy_history_2d s' = energy_history_2d s @ (en # E) \<and> length (en # E) = Suc (length H)"
    using f(4) en by simp
  then show ?thesis using f(1) by blast
qed

lemma init_2d_grid_ok:
  assumes "init_2d Lx Ly Nx Ny c omega0 dt_factor = Inr s"
  shows "grid_ok_2d s" "phi_history_2d s = []" "energy_history_2d s = []" "time_points_2d s = []"
    "Nx_2d s = Nx" "Ny_2d s = Ny"
  using assms
  by (auto simp: init_2d_def Let_def grid_ok_2d_def length_linspace split: if_splits)

section \<open>The boundary condition\<close>

lemma upto_nonempty: "1 \<le> n \<Longrightarrow> [1..n] \<noteq> []"
  by (simp add: upto.simps)

text \<open>
  C2, as the code has it. Every update leaves the first and the last cell at 0 (1D) and
  the four edges at 0 (2D): the current field after one or more passes of the loop, and
  with it every snapshot a run appends after its first one. The first snapshot is the
  initial pulse as generated, which no statement clears.
\<close>

theorem boundary_zero_after_every_update:
  "(1 \<le> n \<and> loop_1d se [1..n] st = Inr (sa, phi, pp) \<longrightarrow> boundary_zero_1d phi) \<and>
   (simulate_1d Nt se s = Inr s' \<longrightarrow>
      (\<exists>H. phi_history_1d s' = phi_history_1d s @ gaussian_pulse s # H \<and>
           list_all boundary_zero_1d H)) \<and>
   (1 \<le> n \<and> loop_2d se [1..n] st2 = Inr (sb, phi2, pp2) \<longrightarrow> boundary_zero_2d phi2) \<and>
   (simulate_2d Nt se ty u = Inr u' \<longrightarrow>
      (\<exists>phi0 H. initial_field_2d ty u = Inr phi0 \<and>
           phi_history_2d u' = phi_history_2d u @ phi0 # H \<and> list_all boundary_zero_2d H))"
proof -
  have a: "boundary_zero_1d phi" if "1 \<le> n \<and> loop_1d se [1..n] st = Inr (sa, phi, pp)"
  proof -
    obtain s0 p0 q0 where st: "st = (s0, p0, q0)" by (cases st) auto
    show ?thesis using loop_1d_boundary[of se "[1..n]" s0 p0 q0 sa phi pp] that upto_nonempty[of n]
      by (simp add: st)
  qed
  have b: "boundary_zero_2d phi2" if "1 \<le> n \<and> loop_2d se [1..n] st2 = Inr (sb, phi2, pp2)"
  proof -
    obtain s0 p0 q0 where st: "st2 = (s0, p0, q0)" by (cases st2) auto
    show ?thesis using loop_2d_boundary[of se "[1..n]" s0 p0 q0 sb phi2 pp2] that upto_nonempty[of n]
      by (simp add: st)
  qed
  have c: "\<exists>phi0 H. initial_field_2d ty u = Inr phi0 \<and>
           phi_history_2d u' = phi_history_2d u @ phi0 # H \<and> list_all boundary_zero_2d H"
    if "simulate_2d Nt se ty u = Inr u'"
    using simulate_2d_history[OF that] by blast
  show ?thesis using a b c simulate_1d_history by blast
qed

text \<open>
  Two updates with \<open>save_every = 1\<close> on the 1D grid \<open>L = 2\<close>, \<open>Nx = 3\<close> and on the 2D
  grid \<open>3 \<times> 3\<close>: the run returns, and the snapshots after the first have zero boundaries.
\<close>

theorem boundary_zero_after_every_update_witness:
  "\<not> isl (simulate_1d 2 1 (projr (init_1d 2 3 1 2 (1/2) (1/10)))) \<and>
   list_all boundary_zero_1d
     (tl (phi_history_1d (projr (simulate_1d 2 1 (projr (init_1d 2 3 1 2 (1/2) (1/10))))))) \<and>
   \<not> isl (simulate_2d 2 1 ''gaussian'' (projr (init_2d 2 2 3 3 1 2 (1/2)))) \<and>
   list_all boundary_zero_2d
     (tl (phi_history_2d (projr (simulate_2d 2 1 ''gaussian'' (projr (init_2d 2 2 3 3 1 2 (1/2)))))))"
proof -
  let ?s = "projr (init_1d 2 3 1 2 (1/2) (1/10))"
  let ?u = "projr (init_2d 2 2 3 3 1 2 (1/2))"
  have i1: "init_1d 2 3 1 2 (1/2) (1/10) = Inr ?s" by (simp add: init_1d_def)
  have i2: "init_2d 2 2 3 3 1 2 (1/2) = Inr ?u" by (simp add: init_2d_def Let_def)
  note g1 = init_1d_grid_ok[OF i1] and g2 = init_2d_grid_ok[OF i2]
  obtain s' where s': "simulate_1d 2 1 ?s = Inr s'"
    using simulate_1d_total[OF g1(1), of 1 2] by auto
  obtain u' where u': "simulate_2d 2 1 ''gaussian'' ?u = Inr u'"
    using simulate_2d_total[OF g2(1), of 1 "''gaussian''" 2] g2(5,6) by auto
  note w = boundary_zero_after_every_update[where s = ?s and s' = s' and Nt = 2 and se = 1
      and u = ?u and u' = u' and ty = "''gaussian''"]
  from w s' obtain H where H: "phi_history_1d s' = phi_history_1d ?s @ gaussian_pulse ?s # H"
    "list_all boundary_zero_1d H" by blast
  from w u' obtain phi0 H2 where H2: "phi_history_2d u' = phi_history_2d ?u @ phi0 # H2"
    "list_all boundary_zero_2d H2" by blast
  show ?thesis using s' u' H H2 g1(2) g2(2) by simp
qed

text \<open>
  The run with all default arguments, \<^verbatim>\<open>VGTSimulation1D().simulate()\<close>: it returns, and the
  first cell of its first snapshot is \<open>exp(-25 / 0.1)\<close>, which is not 0.
\<close>

theorem initial_snapshot_boundary_nonzero:
  "\<not> isl (simulate_1d 300 10 (projr (init_1d 10 400 1 2 (9/10) (1/10)))) \<and>
   \<not> boundary_zero_1d
       (hd (phi_history_1d (projr (simulate_1d 300 10 (projr (init_1d 10 400 1 2 (9/10) (1/10)))))))"
proof -
  let ?s = "projr (init_1d 10 400 1 2 (9/10) (1/10))"
  have i1: "init_1d 10 400 1 2 (9/10) (1/10) = Inr ?s" by (simp add: init_1d_def)
  note g = init_1d_grid_ok[OF i1]
  obtain s' where s': "simulate_1d 300 10 ?s = Inr s'"
    using simulate_1d_total[OF g(1), of 10 300] by auto
  from simulate_1d_history[OF s'] obtain H where
    "phi_history_1d s' = phi_history_1d ?s @ gaussian_pulse ?s # H" by blast
  then have h: "hd (phi_history_1d s') = gaussian_pulse ?s" using g(2) by simp
  have x: "x_1d ?s \<noteq> []" using g(1) by (auto simp: grid_ok_1d_def)
  have "hd (gaussian_pulse ?s) = exp (- ((hd (x_1d ?s) - L_1d ?s / 2)\<^sup>2) / pulse_width_1d ?s)"
    using x by (simp add: gaussian_pulse_def hd_map)
  then have "hd (gaussian_pulse ?s) \<noteq> 0" by simp
  then have "\<not> boundary_zero_1d (gaussian_pulse ?s)" by (simp add: boundary_zero_1d_def)
  then show ?thesis using s' h by simp
qed

section \<open>Configuration errors\<close>










section \<open>Replay\<close>

lemma simulate_1d_new_results:
  "map_sum id (\<lambda>s'. (drop (length (phi_history_1d s)) (phi_history_1d s'),
                      drop (length (time_points_1d s)) (time_points_1d s'),
                      drop (length (max_amplitude_1d s)) (max_amplitude_1d s')))
      (simulate_1d Nt se s) =
   map_sum id (\<lambda>r. (phi_history_1d r, time_points_1d r, max_amplitude_1d r))
      (simulate_1d Nt se (fresh_1d s))"
proof -
  let ?h = "phi_history_1d s" and ?t = "time_points_1d s" and ?a = "max_amplitude_1d s"
  have "simulate_1d Nt se s = simulate_1d Nt se (preload_1d ?h ?t ?a (fresh_1d s))"
    by (simp only: preload_fresh_1d)
  also have "\<dots> = map_sum id (preload_1d ?h ?t ?a) (simulate_1d Nt se (fresh_1d s))"
    by (rule simulate_1d_preload)
  finally show ?thesis
    by (cases "simulate_1d Nt se (fresh_1d s)") (simp_all add: preload_1d_def)
qed

lemma simulate_2d_new_results:
  "map_sum id (\<lambda>s'. (drop (length (phi_history_2d s)) (phi_history_2d s'),
                      drop (length (time_points_2d s)) (time_points_2d s'),
                      drop (length (energy_history_2d s)) (energy_history_2d s')))
      (simulate_2d Nt se ty s) =
   map_sum id (\<lambda>r. (phi_history_2d r, time_points_2d r, energy_history_2d r))
      (simulate_2d Nt se ty (fresh_2d s))"
proof -
  let ?h = "phi_history_2d s" and ?t = "time_points_2d s" and ?e = "energy_history_2d s"
  have "simulate_2d Nt se ty s = simulate_2d Nt se ty (preload_2d ?h ?t ?e (fresh_2d s))"
    by (simp only: preload_fresh_2d)
  also have "\<dots> = map_sum id (preload_2d ?h ?t ?e) (simulate_2d Nt se ty (fresh_2d s))"
    by (rule simulate_2d_preload)
  finally show ?thesis
    by (cases "simulate_2d Nt se ty (fresh_2d s)") (simp_all add: preload_2d_def)
qed

text \<open>
  C8. Two instances that agree on everything but the result lists they hold (the same
  grid and physical parameters and the same coordinate arrays, hence the same initial
  pulse), run with the same step count and save stride: both runs raise the same
  exception, or both return and have appended the same snapshots, the same times and the
  same amplitude trace (1D) or energies (2D). For instances fresh from the constructor
  these are the complete histories. The embedding is a function, so there is no randomness
  or clock in it; what the statement adds is that nothing held by the instance before the
  run enters it.
\<close>

theorem replay_is_deterministic:
  assumes "fresh_1d s1 = fresh_1d s2" and "fresh_2d u1 = fresh_2d u2"
  shows "map_sum id (\<lambda>s'. (drop (length (phi_history_1d s1)) (phi_history_1d s'),
                            drop (length (time_points_1d s1)) (time_points_1d s'),
                            drop (length (max_amplitude_1d s1)) (max_amplitude_1d s')))
           (simulate_1d Nt se s1) =
         map_sum id (\<lambda>s'. (drop (length (phi_history_1d s2)) (phi_history_1d s'),
                            drop (length (time_points_1d s2)) (time_points_1d s'),
                            drop (length (max_amplitude_1d s2)) (max_amplitude_1d s')))
           (simulate_1d Nt se s2) \<and>
         map_sum id (\<lambda>s'. (drop (length (phi_history_2d u1)) (phi_history_2d s'),
                            drop (length (time_points_2d u1)) (time_points_2d s'),
                            drop (length (energy_history_2d u1)) (energy_history_2d s')))
           (simulate_2d Nt se ty u1) =
         map_sum id (\<lambda>s'. (drop (length (phi_history_2d u2)) (phi_history_2d s'),
                            drop (length (time_points_2d u2)) (time_points_2d s'),
                            drop (length (energy_history_2d u2)) (energy_history_2d s')))
           (simulate_2d Nt se ty u2)"
  by (simp only: simulate_1d_new_results simulate_2d_new_results assms)

text \<open>
  Two instances built with the same arguments, one of which has already been run once:
  the second run of the one appends what the first run of the other produces.
\<close>

theorem replay_is_deterministic_witness:
  "map_sum id (\<lambda>s'. (drop 0 (phi_history_1d s'), drop 0 (time_points_1d s'),
                      drop 0 (max_amplitude_1d s')))
     (simulate_1d 2 1 (projr (init_1d 2 3 1 2 (1/2) (1/10)))) =
   map_sum id (\<lambda>s'. (drop 1 (phi_history_1d s'), drop 1 (time_points_1d s'),
                      drop 1 (max_amplitude_1d s')))
     (simulate_1d 2 1 (preload_1d [[7, 8, 9]] [0] [9] (projr (init_1d 2 3 1 2 (1/2) (1/10))))) \<and>
   map_sum id (\<lambda>s'. (drop 0 (phi_history_2d s'), drop 0 (time_points_2d s'),
                      drop 0 (energy_history_2d s')))
     (simulate_2d 2 1 ''ring'' (projr (init_2d 2 2 3 3 1 2 (1/2)))) =
   map_sum id (\<lambda>s'. (drop 1 (phi_history_2d s'), drop 1 (time_points_2d s'),
                      drop 1 (energy_history_2d s')))
     (simulate_2d 2 1 ''ring'' (preload_2d [[[7]]] [0] [9] (projr (init_2d 2 2 3 3 1 2 (1/2)))))"
proof -
  let ?s = "projr (init_1d 2 3 1 2 (1/2) (1/10))"
  let ?u = "projr (init_2d 2 2 3 3 1 2 (1/2))"
  have h1: "fresh_1d ?s = fresh_1d (preload_1d [[7, 8, 9]] [0] [9] ?s)"
    by (simp add: fresh_1d_def preload_1d_def)
  have h2: "fresh_2d ?u = fresh_2d (preload_2d [[[7]]] [0] [9] ?u)"
    by (simp add: fresh_2d_def preload_2d_def)
  have e1: "phi_history_1d ?s = []" "time_points_1d ?s = []" "max_amplitude_1d ?s = []"
    by (simp_all add: init_1d_def)
  have e2: "phi_history_2d ?u = []" "time_points_2d ?u = []" "energy_history_2d ?u = []"
    by (simp_all add: init_2d_def Let_def)
  show ?thesis
    using replay_is_deterministic[OF h1 h2, of 2 1 "''ring''"]
    by (simp add: e1 e2 preload_1d_def preload_2d_def)
qed

section \<open>The interference scenario\<close>

lemma gaussian_pulse_2d_nth:
  assumes "grid_ok_2d s" "r < nat (Ny_2d s)" "k < nat (Nx_2d s)"
  shows "gaussian_pulse_2d s (Some (cx, cy)) width amplitude ! r ! k =
           amplitude * exp (- ((x_2d s ! k - cx)\<^sup>2 + (y_2d s ! r - cy)\<^sup>2) / width\<^sup>2)"
    and "gaussian_pulse_2d s None width amplitude ! r ! k =
           amplitude * exp (- ((x_2d s ! k - Lx_2d s / 2)\<^sup>2 + (y_2d s ! r - Ly_2d s / 2)\<^sup>2) / width\<^sup>2)"
proof -
  have X: "X_2d s = replicate (nat (Ny_2d s)) (x_2d s)"
    and Y: "Y_2d s = map (\<lambda>yr. replicate (nat (Nx_2d s)) yr) (y_2d s)"
    and l: "length (x_2d s) = nat (Nx_2d s)" "length (y_2d s) = nat (Ny_2d s)"
    using assms(1) by (simp_all add: grid_ok_2d_def meshgrid_X_def meshgrid_Y_def)
  show "gaussian_pulse_2d s (Some (cx, cy)) width amplitude ! r ! k =
           amplitude * exp (- ((x_2d s ! k - cx)\<^sup>2 + (y_2d s ! r - cy)\<^sup>2) / width\<^sup>2)"
    using assms(2,3) l by (simp add: gaussian_pulse_2d_def Let_def X Y del: minus_add_distrib)
  show "gaussian_pulse_2d s None width amplitude ! r ! k =
           amplitude * exp (- ((x_2d s ! k - Lx_2d s / 2)\<^sup>2 + (y_2d s ! r - Ly_2d s / 2)\<^sup>2) / width\<^sup>2)"
    using assms(2,3) l by (simp add: gaussian_pulse_2d_def Let_def X Y del: minus_add_distrib)
qed

lemma interference_seed_nth:
  assumes "grid_ok_2d s" "r < nat (Ny_2d s)" "k < nat (Nx_2d s)"
  shows "interference_seed s ! r ! k =
           0.7 * exp (- ((x_2d s ! k - 10)\<^sup>2 + (y_2d s ! r - 15)\<^sup>2) / 1\<^sup>2) +
           0.7 * exp (- ((x_2d s ! k - 20)\<^sup>2 + (y_2d s ! r - 15)\<^sup>2) / 1\<^sup>2)"
proof -
  let ?p1 = "gaussian_pulse_2d s (Some (10, 15)) 1.0 0.7"
  let ?p2 = "gaussian_pulse_2d s (Some (20, 15)) 1.0 0.7"
  have sh: "has_shape (nat (Ny_2d s)) (nat (Nx_2d s)) ?p1" "has_shape (nat (Ny_2d s)) (nat (Nx_2d s)) ?p2"
    using assms(1) by (rule gaussian_pulse_2d_shape)+
  then have len: "length ?p1 = nat (Ny_2d s)" "length ?p2 = nat (Ny_2d s)"
    "length (?p1 ! r) = nat (Nx_2d s)" "length (?p2 ! r) = nat (Nx_2d s)"
    using assms(2) by (auto simp: has_shape_def list_all_iff)
  have "interference_seed s ! r ! k = ?p1 ! r ! k + ?p2 ! r ! k"
    using assms(2,3) len by (simp add: interference_seed_def Let_def)
  then show ?thesis
    using gaussian_pulse_2d_nth(1)[OF assms] by simp
qed

lemma exp_minus_one_half: "exp (- 1 :: real) \<le> 1 / 2"
proof -
  have "(2::real) \<le> exp 1" using exp_ge_add_one_self[of "1::real"] by simp
  then have "1 / exp (1::real) \<le> 1 / 2" by (intro divide_left_mono) simp_all
  then show ?thesis by (simp add: exp_minus inverse_eq_divide)
qed


lemma step_2d_count:
  assumes "step_2d se k (s, phi, pp) = Inr (s', phi', pp')"
  shows "length (phi_history_2d s') = length (phi_history_2d s) + (if k mod se = 0 then 1 else 0)"
  using assms by (auto simp: step_2d_def split: sum.splits if_splits)

lemma loop_2d_count:
  assumes "loop_2d se ts (s, phi, pp) = Inr (s', phi', pp')"
  shows "length (phi_history_2d s') =
           length (phi_history_2d s) + length (filter (\<lambda>t. t mod se = 0) ts)"
  using assms
proof (induction ts arbitrary: s phi pp)
  case Nil
  then show ?case by simp
next
  case (Cons k ts)
  from Cons.prems obtain s1 phi1 pp1 where
    st: "step_2d se k (s, phi, pp) = Inr (s1, phi1, pp1)"
    and rest: "loop_2d se ts (s1, phi1, pp1) = Inr (s', phi', pp')"
    by (auto split: sum.splits)
  show ?case using step_2d_count[OF st] Cons.IH[OF rest] by simp
qed

lemma simulate_2d_count:
  assumes "simulate_2d Nt se ty s = Inr s'"
  shows "length (phi_history_2d s') =
           length (phi_history_2d s) + 1 + length (filter (\<lambda>t. t mod se = 0) [1..Nt])"
proof -
  from assms obtain s0 phi pp phi' pp' where
    s0: "start_2d ty s = Inr (s0, phi, pp)"
    and lp: "loop_2d se [1..Nt] (s0, phi, pp) = Inr (s', phi', pp')"
    by (auto simp: simulate_2d_def split: sum.splits)
  show ?thesis using loop_2d_count[OF lp] start_2d_Inr(4)[OF s0] by simp
qed

text \<open>
  On an instance whose snapshot and energy lists have the same length, a fresh one in
  particular, a run keeps them the same length.
\<close>

lemma simulate_2d_aligned:
  assumes "simulate_2d Nt se ty s = Inr s'"
    and "length (energy_history_2d s) = length (phi_history_2d s)"
  shows "length (energy_history_2d s') = length (phi_history_2d s')"
  using simulate_2d_history[OF assms(1)] assms(2) by auto

lemma saves_150_5: "length (filter (\<lambda>t. t mod 5 = 0) [1..150::int]) = 30"
  by code_simp

text \<open>The instance of \<open>demonstrate_interference\<close> and what its run returns.\<close>

lemma interference_instance:
  defines "S \<equiv> projr (init_2d 30 30 300 300 1 (3/2) (1/2))"
  shows "init_2d 30 30 300 300 1 (3/2) (1/2) = Inr S"
    and "demonstrate_interference =
           map_sum id (preload_2d [interference_seed S] [0] [])
             (simulate_2d 150 5 ''gaussian'' S)"
    and "\<exists>r. simulate_2d 150 5 ''gaussian'' S = Inr r"
proof -
  show i: "init_2d 30 30 300 300 1 (3/2) (1/2) = Inr S"
    unfolding S_def by (simp add: init_2d_def Let_def)
  note g = init_2d_grid_ok[OF i]
  have "S\<lparr> phi_history_2d := [interference_seed S], time_points_2d := [0] \<rparr> =
        preload_2d [interference_seed S] [0] [] S"
    using g(2,3,4) by (simp add: preload_2d_def)
  then show "demonstrate_interference =
           map_sum id (preload_2d [interference_seed S] [0] [])
             (simulate_2d 150 5 ''gaussian'' S)"
    by (simp add: demonstrate_interference_def i simulate_2d_preload)
  show "\<exists>r. simulate_2d 150 5 ''gaussian'' S = Inr r"
    using g(5,6) by (intro simulate_2d_total[OF g(1)]) simp_all
qed

lemma interference_seed_differs:
  defines "S \<equiv> projr (init_2d 30 30 300 300 1 (3/2) (1/2))"
  shows "gaussian_pulse_2d S None 1 1 \<noteq> interference_seed S"
proof -
  have i: "init_2d 30 30 300 300 1 (3/2) (1/2) = Inr S"
    unfolding S_def by (simp add: init_2d_def Let_def)
  note g = init_2d_grid_ok[OF i]
  have xy: "x_2d S ! 0 = 0" "y_2d S ! 0 = 0" "Lx_2d S = 30" "Ly_2d S = 30"
    unfolding S_def by (simp_all add: init_2d_def Let_def nth_linspace)
  have r: "0 < nat (Ny_2d S)" "0 < nat (Nx_2d S)" using g(5,6) by simp_all
  have d: "gaussian_pulse_2d S None 1 1 ! 0 ! 0 = exp (- 450)"
    using gaussian_pulse_2d_nth(2)[OF g(1) r, of 1 1] by (simp add: xy)
  have e: "interference_seed S ! 0 ! 0 = 0.7 * exp (- 325) + 0.7 * exp (- 625)"
    using interference_seed_nth[OF g(1) r] by (simp add: xy)
  have "exp (- 450 :: real) = exp (- 325) * exp (- 125)"
    by (simp add: exp_add[symmetric])
  also have "\<dots> \<le> exp (- 325) * exp (- 1)"
    by (intro mult_left_mono) simp_all
  also have "\<dots> \<le> exp (- 325) * (1 / 2)"
    by (intro mult_left_mono exp_minus_one_half) simp
  also have "\<dots> < 0.7 * exp (- 325 :: real)"
    by simp
  also have "\<dots> < 0.7 * exp (- 325) + 0.7 * exp (- 625 :: real)"
    by simp
  finally have "gaussian_pulse_2d S None 1 1 ! 0 ! 0 < interference_seed S ! 0 ! 0"
    by (simp add: d e)
  then show ?thesis by auto
qed

text \<open>
  C4 fails on the code. \<open>demonstrate_interference\<close> returns, and the two-pulse sum stays
  in its history as snapshot 0; but \<open>simulate\<close> does not read the history: it generates the
  default centred pulse of \<open>initial_type='gaussian'\<close>, a different field, saves it as
  snapshot 1 and evolves it. Everything after snapshot 0, and the energy record, is the
  run of a plain Gaussian pulse on the same grid.
\<close>

theorem interference_run_evolves_default_pulse:
  "\<not> isl demonstrate_interference \<and>
   phi_history_2d (projr demonstrate_interference) ! 0 =
     interference_seed (projr (init_2d 30 30 300 300 1 (3/2) (1/2))) \<and>
   phi_history_2d (projr demonstrate_interference) ! 1 =
     gaussian_pulse_2d (projr (init_2d 30 30 300 300 1 (3/2) (1/2))) None 1 1 \<and>
   gaussian_pulse_2d (projr (init_2d 30 30 300 300 1 (3/2) (1/2))) None 1 1 \<noteq>
     interference_seed (projr (init_2d 30 30 300 300 1 (3/2) (1/2))) \<and>
   map_sum id (\<lambda>s'. (tl (phi_history_2d s'), energy_history_2d s')) demonstrate_interference =
     map_sum id (\<lambda>s'. (phi_history_2d s', energy_history_2d s'))
       (simulate_2d 150 5 ''gaussian'' (projr (init_2d 30 30 300 300 1 (3/2) (1/2))))"
proof -
  let ?S = "projr (init_2d 30 30 300 300 1 (3/2) (1/2))"
  note f = interference_instance
  from f(3) obtain r where r: "simulate_2d 150 5 ''gaussian'' ?S = Inr r" by blast
  note g = init_2d_grid_ok[OF f(1)]
  from simulate_2d_history[OF r] obtain phi0 H where
    h: "initial_field_2d ''gaussian'' ?S = Inr phi0" "phi_history_2d r = phi_history_2d ?S @ phi0 # H"
    by blast
  have phi0: "phi0 = gaussian_pulse_2d ?S None 1 1" using h(1) by (simp add: initial_field_2d_def)
  have d: "demonstrate_interference = Inr (preload_2d [interference_seed ?S] [0] [] r)"
    using f(2) r by simp
  have hist: "phi_history_2d (preload_2d [interference_seed ?S] [0] [] r) =
        interference_seed ?S # gaussian_pulse_2d ?S None 1 1 # H"
    using h(2) g(2) by (simp add: preload_2d_def phi0)
  have en: "energy_history_2d (preload_2d [interference_seed ?S] [0] [] r) = energy_history_2d r"
    by (simp add: preload_2d_def)
  have tl: "tl (phi_history_2d (preload_2d [interference_seed ?S] [0] [] r)) = phi_history_2d r"
    by (simp add: preload_2d_def)
  have c1: "\<not> isl demonstrate_interference" by (simp add: d)
  have c2: "phi_history_2d (projr demonstrate_interference) ! 0 = interference_seed ?S"
    by (simp only: d sum.sel hist nth_Cons_0)
  have c3: "phi_history_2d (projr demonstrate_interference) ! 1 = gaussian_pulse_2d ?S None 1 1"
    by (simp only: d sum.sel hist) simp
  have c5: "map_sum id (\<lambda>s'. (tl (phi_history_2d s'), energy_history_2d s')) demonstrate_interference =
     map_sum id (\<lambda>s'. (phi_history_2d s', energy_history_2d s')) (simulate_2d 150 5 ''gaussian'' ?S)"
    by (simp only: d r map_sum.simps id_apply tl en)
  show ?thesis using c1 c2 c3 c5 interference_seed_differs by blast
qed

text \<open>
  C9 fails on the code, by the same defect. \<open>demonstrate_interference\<close> puts one snapshot
  and one time into the lists and no energy, and the run appends to all three in step: it
  returns 32 snapshots and 31 energies, energy \<open>j\<close> being that of snapshot \<open>j + 1\<close>.
\<close>

theorem interference_energy_record_misaligned:
  "\<not> isl demonstrate_interference \<and>
   length (phi_history_2d (projr demonstrate_interference)) = 32 \<and>
   length (energy_history_2d (projr demonstrate_interference)) = 31"
proof -
  let ?S = "projr (init_2d 30 30 300 300 1 (3/2) (1/2))"
  note f = interference_instance
  from f(3) obtain r where r: "simulate_2d 150 5 ''gaussian'' ?S = Inr r" by blast
  note g = init_2d_grid_ok[OF f(1)]
  have d: "demonstrate_interference = Inr (preload_2d [interference_seed ?S] [0] [] r)"
    using f(2) r by simp
  have n: "length (phi_history_2d r) = 31"
    using simulate_2d_count[OF r] g(2) by (simp add: saves_150_5)
  have "length (energy_history_2d r) = length (phi_history_2d r)"
    using simulate_2d_aligned[OF r] g(2,3) by simp
  then show ?thesis using n by (simp add: d preload_2d_def)
qed

section \<open>The energy functional\<close>

lemma has_shape_nth: "has_shape nr nc m \<Longrightarrow> r < nr \<Longrightarrow> length (m ! r) = nc"
  by (auto simp: has_shape_def list_all_iff)

lemma sum_list_by_index:
  assumes "length xs = n" and "\<And>i. i < n \<Longrightarrow> xs ! i = g i"
  shows "sum_list xs = (\<Sum>i\<leftarrow>[0..<n]. g i)"
proof -
  have "xs = map (\<lambda>i. xs ! i) [0..<n]" using assms(1) map_nth[of xs] by simp
  also have "\<dots> = map g [0..<n]" using assms(2) by simp
  finally show ?thesis by simp
qed

lemma sum2_by_index:
  assumes "has_shape nr nc m" and "\<And>r k. r < nr \<Longrightarrow> k < nc \<Longrightarrow> m ! r ! k = g r k"
  shows "sum2 m = (\<Sum>r\<leftarrow>[0..<nr]. \<Sum>k\<leftarrow>[0..<nc]. g r k)"
proof -
  have "sum_list (map sum_list m) = (\<Sum>r\<leftarrow>[0..<nr]. \<Sum>k\<leftarrow>[0..<nc]. g r k)"
  proof (rule sum_list_by_index)
    show "length (map sum_list m) = nr" using assms(1) by (simp add: has_shape_def)
    fix r assume r: "r < nr"
    have "sum_list (m ! r) = (\<Sum>k\<leftarrow>[0..<nc]. g r k)"
      using has_shape_nth[OF assms(1) r] assms(2)[OF r] by (intro sum_list_by_index)
    then show "map sum_list m ! r = (\<Sum>k\<leftarrow>[0..<nc]. g r k)"
      using r assms(1) by (simp add: has_shape_def)
  qed
  then show ?thesis by (simp add: sum2_def)
qed

lemma nth_map2_2d:
  assumes "has_shape nr nc a" "has_shape nr nc b" "r < nr" "k < nc"
  shows "map2 (map2 f) a b ! r ! k = f (a ! r ! k) (b ! r ! k)"
  using assms has_shape_nth[OF assms(1,3)] has_shape_nth[OF assms(2,3)]
  by (simp add: has_shape_def)

lemma nth_map_2d:
  assumes "has_shape nr nc a" "r < nr" "k < nc"
  shows "map (map f) a ! r ! k = f (a ! r ! k)"
  using assms has_shape_nth[OF assms(1,2)] by (simp add: has_shape_def)

lemma length_gradient_1: "2 \<le> length f \<Longrightarrow> length (gradient_1 f h) = length f"
  by (simp add: gradient_1_def)

lemma nth_gradient_1:
  assumes "2 \<le> length f" "i < length f"
  shows "gradient_1 f h ! i = spec_difference h (\<lambda>j. f ! j) (length f) i"
proof -
  let ?n = "length f"
  let ?mid = "map2 (\<lambda>a b. (a - b) / (2 * h)) (drop 2 f) (take (?n - 2) f)"
  have lm: "length ?mid = ?n - 2" by simp
  consider "i = 0" | "i = ?n - 1" "i \<noteq> 0" | "0 < i" "i < ?n - 1" using assms by linarith
  then show ?thesis
  proof cases
    case 1
    then show ?thesis by (simp add: gradient_1_def spec_difference_def)
  next
    case 2
    have "gradient_1 f h ! i = (([(f ! 1 - f ! 0) / h] @ ?mid) @ [(f ! (?n - 1) - f ! (?n - 2)) / h]) ! i"
      by (simp add: gradient_1_def)
    also have "\<dots> = (f ! (?n - 1) - f ! (?n - 2)) / h"
    proof -
      have "length ([(f ! 1 - f ! 0) / h] @ ?mid) = i" using 2 assms by simp
      then show ?thesis using nth_append_length[of "[(f ! 1 - f ! 0) / h] @ ?mid"] by blast
    qed
    finally show ?thesis using 2 by (simp add: spec_difference_def)
  next
    case 3
    have j: "i - 1 < ?n - 2" "2 + (i - 1) = i + 1" using 3 by arith+
    have "gradient_1 f h ! i = (?mid @ [(f ! (?n - 1) - f ! (?n - 2)) / h]) ! (i - 1)"
      using 3 by (simp add: gradient_1_def nth_Cons')
    also have "\<dots> = ?mid ! (i - 1)"
      using j(1) lm by (simp add: nth_append del: length_map length_zip)
    also have "\<dots> = (f ! (i + 1) - f ! (i - 1)) / (2 * h)"
      using j by simp
    finally show ?thesis using 3 by (simp add: spec_difference_def)
  qed
qed

lemma gradient_axis1_shape:
  assumes "has_shape nr nc phi" "2 \<le> nc"
  shows "has_shape nr nc (gradient_axis1 phi h)"
  using assms by (auto simp: has_shape_def gradient_axis1_def list_all_iff length_gradient_1)

lemma nth_gradient_axis1:
  assumes "has_shape nr nc phi" "2 \<le> nc" "r < nr" "k < nc"
  shows "gradient_axis1 phi h ! r ! k = spec_difference h (\<lambda>i. phi ! r ! i) nc k"
proof -
  have l: "length (phi ! r) = nc" "length phi = nr"
    using has_shape_nth[OF assms(1,3)] assms(1) by (simp_all add: has_shape_def)
  have "gradient_axis1 phi h ! r ! k = gradient_1 (phi ! r) h ! k"
    using assms(3) l by (simp add: gradient_axis1_def)
  then show ?thesis using nth_gradient_1[of "phi ! r" k h] assms(2,4) l by simp
qed


lemma length_gradient_axis0: "2 \<le> length phi \<Longrightarrow> length (gradient_axis0 phi h) = length phi"
  by (simp add: gradient_axis0_def)

lemma nth_gradient_axis0_row:
  assumes "2 \<le> length phi" "r < length phi"
  shows "gradient_axis0 phi h ! r =
           (if r = 0 then map2 (\<lambda>a b. (a - b) / h) (phi ! 1) (phi ! 0)
            else if r = length phi - 1
              then map2 (\<lambda>a b. (a - b) / h) (phi ! (length phi - 1)) (phi ! (length phi - 2))
            else map2 (\<lambda>a b. (a - b) / (2 * h)) (phi ! (r + 1)) (phi ! (r - 1)))"
proof -
  let ?n = "length phi"
  let ?first = "map2 (\<lambda>a b. (a - b) / h) (phi ! 1) (phi ! 0)"
  let ?last = "map2 (\<lambda>a b. (a - b) / h) (phi ! (?n - 1)) (phi ! (?n - 2))"
  let ?mid = "map2 (map2 (\<lambda>a b. (a - b) / (2 * h))) (drop 2 phi) (take (?n - 2) phi)"
  have lm: "length ?mid = ?n - 2" by simp
  have g: "gradient_axis0 phi h = ([?first] @ ?mid) @ [?last]" by (simp add: gradient_axis0_def)
  consider "r = 0" | "r = ?n - 1" "r \<noteq> 0" | "0 < r" "r < ?n - 1" using assms by linarith
  then show ?thesis
  proof cases
    case 1
    then show ?thesis by (simp add: gradient_axis0_def)
  next
    case 2
    have "length ([?first] @ ?mid) = r" using 2 assms by simp
    then have "(([?first] @ ?mid) @ [?last]) ! r = ?last"
      using nth_append_length[of "[?first] @ ?mid"] by blast
    then have "gradient_axis0 phi h ! r = ?last" by (simp only: g)
    then show ?thesis using 2 by simp
  next
    case 3
    have j: "r - 1 < ?n - 2" "2 + (r - 1) = r + 1" "r \<noteq> 0" "r \<noteq> ?n - 1" using 3 by arith+
    have "gradient_axis0 phi h ! r = (?mid @ [?last]) ! (r - 1)"
      using 3 by (simp add: gradient_axis0_def nth_Cons')
    also have "\<dots> = ?mid ! (r - 1)"
      using j(1) lm by (simp add: nth_append del: length_map length_zip)
    also have "\<dots> = map2 (\<lambda>a b. (a - b) / (2 * h)) (phi ! (r + 1)) (phi ! (r - 1))"
      using j by simp
    finally show ?thesis using j(3,4) by simp
  qed
qed

lemma gradient_axis0_shape:
  assumes "has_shape nr nc phi" "2 \<le> nr"
  shows "has_shape nr nc (gradient_axis0 phi h)"
proof -
  have l: "length phi = nr" using assms(1) by (simp add: has_shape_def)
  have rows: "length (phi ! j) = nc" if "j < nr" for j using has_shape_nth[OF assms(1) that] .
  have "length (gradient_axis0 phi h ! r) = nc" if "r < nr" for r
  proof -
    have "0 < nr" "1 < nr" "nr - 1 < nr" "nr - 2 < nr" "r - 1 < nr" using assms(2) that by arith+
    moreover have "r + 1 < nr" if "r \<noteq> nr - 1" using that \<open>r < nr\<close> by arith
    ultimately show ?thesis
      using nth_gradient_axis0_row[of phi r h] assms(2) that l rows by auto
  qed
  then show ?thesis
    using assms(2) l by (simp add: has_shape_def list_all_length length_gradient_axis0)
qed

lemma nth_gradient_axis0:
  assumes "has_shape nr nc phi" "2 \<le> nr" "r < nr" "k < nc"
  shows "gradient_axis0 phi h ! r ! k = spec_difference h (\<lambda>j. phi ! j ! k) nr r"
proof -
  have l: "length phi = nr" using assms(1) by (simp add: has_shape_def)
  have rows: "length (phi ! j) = nc" if "j < nr" for j using has_shape_nth[OF assms(1) that] .
  have b: "0 < nr" "1 < nr" "nr - 1 < nr" "nr - 2 < nr" "r - 1 < nr" using assms(2,3) by arith+
  have b': "r + 1 < nr" if "r \<noteq> nr - 1" using that assms(3) by arith
  show ?thesis
    using nth_gradient_axis0_row[of phi r h] assms(2,3,4) l rows b b'
    by (auto simp: spec_difference_def)
qed

text \<open>
  C5. For fields \<open>cur\<close> and \<open>prev\<close> of the grid's shape, at least two points each way, and
  \<open>dt, dx, dy > 0\<close>, \<open>\<omega>\<^sub>0 \<ge> 0\<close>, \<open>compute_energy\<close> returns the kinetic term with the velocity
  \<open>(cur - prev) / dt\<close> plus the potential term with the gradients of \<open>np.gradient\<close>:
  centered differences inside, one-sided differences at the edge cells.
\<close>

theorem compute_energy_is_spec_energy:
  assumes shape: "has_shape nr nc cur" "has_shape nr nc prev" and n: "2 \<le> nr" "2 \<le> nc"
    and pos: "0 < dt_2d s" "0 < dx_2d s" "0 < dy_2d s" "0 \<le> omega0_2d s"
  shows "compute_energy s cur prev =
           Inr (spec_energy (dt_2d s) (dx_2d s) (dy_2d s) (omega0_2d s) nr nc cur prev)"
proof -
  let ?sq = "map (map (\<lambda>v::real. v\<^sup>2))"
  let ?d = "map2 (map2 (\<lambda>a b. (a - b) / dt_2d s)) cur prev"
  let ?gx = "gradient_axis1 cur (dx_2d s)" and ?gy = "gradient_axis0 cur (dy_2d s)"
  let ?w = "map (map (\<lambda>v. (omega0_2d s)\<^sup>2 * v\<^sup>2)) cur"
  let ?p = "map2 (map2 (+)) (map2 (map2 (+)) (?sq ?gx) (?sq ?gy)) ?w"
  have sz: "nrows cur = nr" "ncols cur = nc"
    using shape(1) n(1) by (simp_all add: nrows_shape ncols_shape)
  have sd: "has_shape nr nc ?d" using shape by (rule has_shape_map2)
  have sgx: "has_shape nr nc ?gx" using shape(1) n(2) by (rule gradient_axis1_shape)
  have sgy: "has_shape nr nc ?gy" using shape(1) n(1) by (rule gradient_axis0_shape)
  have s1: "has_shape nr nc (map2 (map2 (+)) (?sq ?gx) (?sq ?gy))"
    by (intro has_shape_map2 has_shape_map sgx sgy)
  have sw: "has_shape nr nc ?w" using shape(1) by (rule has_shape_map)
  have kin: "sum2 (?sq ?d) =
      (\<Sum>r\<leftarrow>[0..<nr]. \<Sum>k\<leftarrow>[0..<nc]. ((cur ! r ! k - prev ! r ! k) / dt_2d s)\<^sup>2)"
  proof (rule sum2_by_index)
    show "has_shape nr nc (?sq ?d)" using sd by (rule has_shape_map)
    fix r k assume rk: "r < nr" "k < nc"
    show "?sq ?d ! r ! k = ((cur ! r ! k - prev ! r ! k) / dt_2d s)\<^sup>2"
      by (simp only: nth_map_2d[OF sd rk] nth_map2_2d[OF shape rk])
  qed
  have pot: "sum2 ?p =
      (\<Sum>r\<leftarrow>[0..<nr]. \<Sum>k\<leftarrow>[0..<nc].
          (spec_difference (dx_2d s) (\<lambda>i. cur ! r ! i) nc k)\<^sup>2 +
          (spec_difference (dy_2d s) (\<lambda>j. cur ! j ! k) nr r)\<^sup>2 +
          (omega0_2d s)\<^sup>2 * (cur ! r ! k)\<^sup>2)"
  proof (rule sum2_by_index)
    show "has_shape nr nc ?p" by (intro has_shape_map2 s1 sw)
    fix r k assume rk: "r < nr" "k < nc"
    show "?p ! r ! k =
          (spec_difference (dx_2d s) (\<lambda>i. cur ! r ! i) nc k)\<^sup>2 +
          (spec_difference (dy_2d s) (\<lambda>j. cur ! j ! k) nr r)\<^sup>2 +
          (omega0_2d s)\<^sup>2 * (cur ! r ! k)\<^sup>2"
      by (simp only: nth_map2_2d[OF s1 sw rk]
            nth_map2_2d[OF has_shape_map[OF sgx] has_shape_map[OF sgy] rk]
            nth_map_2d[OF sgx rk] nth_map_2d[OF sgy rk] nth_map_2d[OF shape(1) rk]
            nth_gradient_axis1[OF shape(1) n(2) rk] nth_gradient_axis0[OF shape(1) n(1) rk])
  qed
  have "compute_energy s cur prev =
          Inr (0.5 * sum2 (?sq ?d) * dx_2d s * dy_2d s + 0.5 * sum2 ?p * dx_2d s * dy_2d s)"
    using n by (simp add: compute_energy_def Let_def sz)
  then show ?thesis by (simp only: kin pot spec_energy_def) simp
qed

text \<open>
  On the \<open>3 \<times> 3\<close> grid with \<open>dx = dy = 2/3\<close>, \<open>dt = 1/3\<close> and \<open>\<omega>\<^sub>0 = 2\<close>, a unit value in the
  middle cell over a zero previous field has the kinetic energy \<open>2\<close> and the potential
  energy \<open>26/9\<close>.
\<close>

theorem compute_energy_is_spec_energy_witness:
  "compute_energy (projr (init_2d 2 2 3 3 1 2 (1/2)))
     [[0, 0, 0], [0, 1, 0], [0, 0, 0]] [[0, 0, 0], [0, 0, 0], [0, 0, 0]] = Inr (44 / 9)"
proof -
  let ?s = "projr (init_2d 2 2 3 3 1 2 (1/2))"
  let ?cur = "[[0, 0, 0], [0, 1, 0], [0, 0, 0]] :: field2d"
  let ?prev = "[[0, 0, 0], [0, 0, 0], [0, 0, 0]] :: field2d"
  have f: "dt_2d ?s = 1 / 3" "dx_2d ?s = 2 / 3" "dy_2d ?s = 2 / 3" "omega0_2d ?s = 2"
    by (simp_all add: init_2d_def Let_def)
  have h: "has_shape 3 3 ?cur" "has_shape 3 3 ?prev" "(2::nat) \<le> 3"
    "0 < dt_2d ?s" "0 < dx_2d ?s" "0 < dy_2d ?s" "0 \<le> omega0_2d ?s"
    by (simp_all add: has_shape_def f)
  have "spec_energy (1 / 3) (2 / 3) (2 / 3) 2 3 3 ?cur ?prev = 44 / 9"
    by (simp add: spec_energy_def spec_difference_def upt_rec power2_eq_square)
  then show ?thesis
    using compute_energy_is_spec_energy[OF h(1,2,3,3,4,5,6,7)] by (simp add: f)
qed

end
